theory Spec2Isabelle
  imports Main
begin

section \<open>The s3fs provisioner: data model\<close>

text \<open>
  A shallow embedding of \<^verbatim>\<open>provisioner/ibm-s3fs-provisioner.go\<close>. Go strings are byte
  strings (\<^typ>\<open>string\<close>), Go maps \<^verbatim>\<open>map[string]string\<close> are partial functions, Go's
  \<^verbatim>\<open>int\<close> is a 64-bit integer, modelled as \<^typ>\<open>int\<close> with the range check of
  \<^verbatim>\<open>strconv.Atoi\<close> written out. Log lines are not modelled; an error is the return
  site that produced it together with the values its message prints (the
  \<^verbatim>\<open>pvcName:clusterID:\<close> prefix of the message is left out).
\<close>

text \<open>PVC annotations (struct \<^verbatim>\<open>pvcAnnotations\<close>).\<close>

record pvcAnnotations =
  AutoCreateBucket :: bool
  AutoDeleteBucket :: bool
  Bucket :: string
  ObjectPath :: string
  Endpoint :: string
  Region :: string
  SecretName :: string
  ChunkSizeMB :: string
  ParallelCount :: string
  MultiReqMax :: string
  StatCacheSize :: string
  S3FSFUSERetryCount :: string
  StatCacheExpireSeconds :: string
  IAMEndpoint :: string
  ValidateBucket :: string

text \<open>PV annotations (struct \<^verbatim>\<open>pvAnnotations\<close>): the embedded struct and the namespace.\<close>

record pvAnnotations =
  pvc_embedded :: pvcAnnotations
  SecretNamespace :: string

text \<open>Storage class options (struct \<^verbatim>\<open>scOptions\<close>).\<close>

record scOptions =
  sc_ChunkSizeMB :: int
  sc_ParallelCount :: int
  sc_MultiReqMax :: int
  sc_StatCacheSize :: int
  sc_TLSCipherSuite :: string
  sc_DebugLevel :: string
  sc_CurlDebug :: bool
  sc_KernelCache :: bool
  sc_S3FSFUSERetryCount :: int
  sc_IAMEndpoint :: string
  sc_OSEndpoint :: string
  sc_OSStorageClass :: string

text \<open>The literal passed to \<^verbatim>\<open>parser.MarshalToMap\<close> at lines 301-317 (\<^verbatim>\<open>driver.Options\<close>).\<close>

record driverOptions =
  opt_ChunkSizeMB :: int
  opt_ParallelCount :: int
  opt_MultiReqMax :: int
  opt_StatCacheSize :: int
  opt_TLSCipherSuite :: string
  opt_CurlDebug :: bool
  opt_KernelCache :: bool
  opt_DebugLevel :: string
  opt_S3FSFUSERetryCount :: string
  opt_StatCacheExpireSeconds :: string
  opt_IAMEndpoint :: string
  opt_OSEndpoint :: string
  opt_OSStorageClass :: string
  opt_Bucket :: string
  opt_ObjectPath :: string

text \<open>\<^verbatim>\<open>backend.ObjectStorageCredentials\<close>, with the fields the provisioner writes.\<close>

record credentials =
  AccessKey :: string
  SecretKey :: string
  APIKey :: string
  ServiceInstanceID :: string
  cred_IAMEndpoint :: string

text \<open>
  A backend session is an opaque handle; it is identified by the arguments of the
  factory call \<^verbatim>\<open>NewObjectStorageSession(endpoint, region, creds, logger)\<close>.
\<close>

datatype session = ObjectStorageSession (sess_endpoint: string) (sess_region: string)
  (sess_creds: credentials)

text \<open>Every call to an external collaborator, in the order it is made.\<close>

datatype event =
    CallSecretsGet string string
  | CallUUIDNew
  | CallNewSession session
  | CallCreateBucket session string
  | CallCheckBucketAccess session string
  | CallCheckObjectPathExistence session string string
  | CallDeleteBucket session string

text \<open>
  The collaborators of \<^verbatim>\<open>IBMS3fsProvisioner\<close>: the Kubernetes client (secret lookup by
  namespace and name), the UUID generator and the backend session methods. Each answers
  with an error text (\<open>Inl\<close>, or \<open>Some\<close> for methods returning only an error) or a
  value. Within one \<^verbatim>\<open>Provision\<close> or \<^verbatim>\<open>Delete\<close> each of them is called at most once.
\<close>

record env =
  Client_SecretsGet :: "string \<Rightarrow> string \<Rightarrow> string + (string \<rightharpoonup> string)"
  UUIDGenerator_New :: "string + string"
  Session_CreateBucket :: "session \<Rightarrow> string \<Rightarrow> string \<times> string option"
  Session_CheckBucketAccess :: "session \<Rightarrow> string \<Rightarrow> string option"
  Session_CheckObjectPathExistence :: "session \<Rightarrow> string \<Rightarrow> string \<Rightarrow> bool \<times> string option"
  Session_DeleteBucket :: "session \<Rightarrow> string \<Rightarrow> string option"

text \<open>Errors of \<^verbatim>\<open>getCredentials\<close> (lines 104, 95).\<close>

datatype cred_error =
    CannotGetSecret string string
  | SecretMissing string

text \<open>One constructor per error return of the source.\<close>

datatype error =
    CannotUnmarshalPVCAnnotations string
  | CannotUnmarshalStorageClassParameters string
  | BadObjectStoreEndpoint string
  | BadIAMEndpoint string
  | CannotConvertToInteger string
  | StatCacheExpireSecondsNegative
  | ObjectPathWithAutoCreate string
  | AutoCreateMustBeEnabled
  | BucketSetWithAutoDelete string
  | CannotCreateUUID string
  | BucketNameNotSpecified
  | CannotGetCredentials cred_error
  | APIKeyWithoutServiceInstanceID
  | CannotCreateBucket string string
  | CannotAccessBucket string string
  | CannotAccessObjectPath string string string
  | ObjectPathNotFound string string
  | CannotMarshalDriverOptions string
  | CannotMarshalPVOptions string
  | CannotUnmarshalPVAnnotations string
  | BackendDeleteFailed string
  | CannotDeleteBucket error

text \<open>
  A call returns a value, returns an error, or panics (a method call on the nil
  interface value \<^verbatim>\<open>sess\<close>, a field read through the nil pointer \<^verbatim>\<open>creds\<close> or
  \<^verbatim>\<open>FlexVolume\<close>).
\<close>

datatype 'a result = Ok 'a | Err error | Panic

type_synonym 'a run = "'a result \<times> event list"

definition andThen :: "'a run \<Rightarrow> ('a \<Rightarrow> 'b run) \<Rightarrow> 'b run" where
  "andThen m f =
     (case m of
        (Ok x, t) \<Rightarrow> (case f x of (r, t') \<Rightarrow> (r, t @ t'))
      | (Err e, t) \<Rightarrow> (Err e, t)
      | (Panic, t) \<Rightarrow> (Panic, t))"

definition pure :: "error + 'a \<Rightarrow> 'a run" where
  "pure r = (case r of Inl e \<Rightarrow> (Err e, []) | Inr x \<Rightarrow> (Ok x, []))"

text \<open>
  Modelled from the spec: the error taxonomy of section 7 (the source returns plain
  \<^verbatim>\<open>error\<close> values and has no error types). Return sites the spec does not classify
  have no class.
\<close>

datatype error_kind = ConfigParseError | ValidationError | CredentialError | BackendError
  | MarshalError

fun error_class :: "error \<Rightarrow> error_kind option" where
  "error_class (CannotUnmarshalPVCAnnotations _) = None"
| "error_class (CannotUnmarshalStorageClassParameters _) = None"
| "error_class (BadObjectStoreEndpoint _) = Some ValidationError"
| "error_class (BadIAMEndpoint _) = Some ValidationError"
| "error_class (CannotConvertToInteger _) = Some ConfigParseError"
| "error_class StatCacheExpireSecondsNegative = Some ValidationError"
| "error_class (ObjectPathWithAutoCreate _) = Some ValidationError"
| "error_class AutoCreateMustBeEnabled = Some ValidationError"
| "error_class (BucketSetWithAutoDelete _) = Some ValidationError"
| "error_class (CannotCreateUUID _) = None"
| "error_class BucketNameNotSpecified = Some ValidationError"
| "error_class (CannotGetCredentials _) = Some CredentialError"
| "error_class APIKeyWithoutServiceInstanceID = Some ValidationError"
| "error_class (CannotCreateBucket _ _) = Some BackendError"
| "error_class (CannotAccessBucket _ _) = Some BackendError"
| "error_class (CannotAccessObjectPath _ _ _) = Some BackendError"
| "error_class (ObjectPathNotFound _ _) = Some ValidationError"
| "error_class (CannotMarshalDriverOptions _) = Some MarshalError"
| "error_class (CannotMarshalPVOptions _) = Some MarshalError"
| "error_class (CannotUnmarshalPVAnnotations _) = None"
| "error_class (BackendDeleteFailed _) = Some BackendError"
| "error_class (CannotDeleteBucket e) = error_class e"

text \<open>The two errors of the scheme checks (lines 170 and 181).\<close>

fun isEndpointError :: "error \<Rightarrow> bool" where
  "isEndpointError (BadObjectStoreEndpoint _) = True"
| "isEndpointError (BadIAMEndpoint _) = True"
| "isEndpointError _ = False"

section \<open>Library functions of Go used by the provisioner\<close>

text \<open>\<^verbatim>\<open>strings.HasPrefix(s, prefix)\<close>.\<close>

definition HasPrefix :: "string \<Rightarrow> string \<Rightarrow> bool" where
  "HasPrefix s p = (take (length p) s = p)"

text \<open>
  \<^verbatim>\<open>strconv.Atoi\<close>: an optional sign, then one or more decimal digits, the value in
  the range of a 64-bit \<^verbatim>\<open>int\<close>; \<open>None\<close> is the error return.
\<close>

definition isDigit :: "char \<Rightarrow> bool" where
  "isDigit c = (48 \<le> (of_char c :: nat) \<and> (of_char c :: nat) \<le> 57)"

fun parseDigits :: "nat \<Rightarrow> string \<Rightarrow> nat option" where
  "parseDigits n [] = Some n"
| "parseDigits n (c # cs) =
     (if isDigit c then parseDigits (n * 10 + (of_char c - 48)) cs else None)"

definition Atoi :: "string \<Rightarrow> int option" where
  "Atoi s =
     (let neg = (case s of [] \<Rightarrow> False | c # _ \<Rightarrow> c = CHR ''-'');
          ds = (case s of [] \<Rightarrow> [] | c # r \<Rightarrow> if c = CHR ''-'' \<or> c = CHR ''+'' then r else s)
      in if ds = [] then None
         else (case parseDigits 0 ds of
                 None \<Rightarrow> None
               | Some n \<Rightarrow>
                   (let v = (if neg then - int n else int n)
                    in if - (2 ^ 63) \<le> v \<and> v < 2 ^ 63 then Some v else None)))"

text \<open>\<^verbatim>\<open>strconv.Itoa\<close> and \<^verbatim>\<open>strconv.FormatBool\<close>.\<close>

function natDigits :: "nat \<Rightarrow> string" where
  "natDigits n =
     (if n < 10 then [char_of (48 + n)]
      else natDigits (n div 10) @ [char_of (48 + n mod 10)])"
  by pat_completeness auto
termination
  by (relation "measure id") auto

definition Itoa :: "int \<Rightarrow> string" where
  "Itoa i = (if i < 0 then CHR ''-'' # natDigits (nat (- i)) else natDigits (nat i))"

definition FormatBool :: "bool \<Rightarrow> string" where
  "FormatBool b = (if b then ''true'' else ''false'')"

text \<open>Reading a Go map: a missing key gives the empty string.\<close>

definition lookup :: "(string \<rightharpoonup> string) \<Rightarrow> string \<Rightarrow> string" where
  "lookup m k = (case m k of None \<Rightarrow> [] | Some v \<Rightarrow> v)"

section \<open>The parser package\<close>

text \<open>
  Modelled from the spec: \<^verbatim>\<open>parser.MarshalToMap\<close> and \<^verbatim>\<open>parser.UnmarshalMap\<close> (package
  \<^verbatim>\<open>utils/parser\<close>) are not part of the source at hand. The keys and the
  \<^verbatim>\<open>omitempty\<close> marks are the struct tags of the source; following sections 4.5 and 6
  of the spec, marshalling writes every field under its key as a string (a field marked
  \<^verbatim>\<open>omitempty\<close> is left out when it holds its zero value), and unmarshalling reads
  every field back from its key, a missing key giving the zero value, a boolean that is
  neither \<^verbatim>\<open>true\<close> nor \<^verbatim>\<open>false\<close> or a malformed integer giving an error that names
  the key.
\<close>

text \<open>A field to be written: key, \<^verbatim>\<open>omitempty\<close>, rendered value, whether it is the zero value.\<close>

type_synonym field = "string \<times> bool \<times> string \<times> bool"

definition strField :: "string \<Rightarrow> bool \<Rightarrow> string \<Rightarrow> field" where
  "strField k omit v = (k, omit, v, v = [])"

definition boolField :: "string \<Rightarrow> bool \<Rightarrow> bool \<Rightarrow> field" where
  "boolField k omit b = (k, omit, FormatBool b, \<not> b)"

definition intField :: "string \<Rightarrow> bool \<Rightarrow> int \<Rightarrow> field" where
  "intField k omit i = (k, omit, Itoa i, i = 0)"

fun writeFields :: "field list \<Rightarrow> (string \<rightharpoonup> string)" where
  "writeFields [] = Map.empty"
| "writeFields ((k, omit, v, zero) # fs) =
     (if omit \<and> zero then writeFields fs else (writeFields fs)(k \<mapsto> v))"

definition pvcFields :: "pvcAnnotations \<Rightarrow> field list" where
  "pvcFields x =
     [boolField ''ibm.io/auto-create-bucket'' False (AutoCreateBucket x),
      boolField ''ibm.io/auto-delete-bucket'' False (AutoDeleteBucket x),
      strField ''ibm.io/bucket'' False (Bucket x),
      strField ''ibm.io/object-path'' True (ObjectPath x),
      strField ''ibm.io/endpoint'' True (Endpoint x),
      strField ''ibm.io/region'' True (Region x),
      strField ''ibm.io/secret-name'' False (SecretName x),
      strField ''ibm.io/chunk-size-mb'' True (ChunkSizeMB x),
      strField ''ibm.io/parallel-count'' True (ParallelCount x),
      strField ''ibm.io/multireq-max'' True (MultiReqMax x),
      strField ''ibm.io/stat-cache-size'' True (StatCacheSize x),
      strField ''ibm.io/s3fs-fuse-retry-count'' True (S3FSFUSERetryCount x),
      strField ''ibm.io/stat-cache-expire-seconds'' True (StatCacheExpireSeconds x),
      strField ''ibm.io/iam-endpoint'' True (IAMEndpoint x),
      strField ''ibm.io/validate-bucket'' True (ValidateBucket x)]"

definition MarshalToMap_pvAnnotations :: "pvAnnotations \<Rightarrow> string + (string \<rightharpoonup> string)" where
  "MarshalToMap_pvAnnotations x =
     Inr (writeFields (pvcFields (pvc_embedded x) @
            [strField ''ibm.io/secret-namespace'' False (SecretNamespace x)]))"

text \<open>
  Modelled from the spec: the keys of \<^verbatim>\<open>driver.Options\<close> (package \<^verbatim>\<open>driver\<close>, not part
  of the source at hand) are the annotation keys without the \<^verbatim>\<open>ibm.io/\<close> prefix
  (section 6), with the \<^verbatim>\<open>omitempty\<close> marks of their counterparts in the structs
  above; \<^verbatim>\<open>Delete\<close> reads three of them back by these names.
\<close>

definition driverFields :: "driverOptions \<Rightarrow> field list" where
  "driverFields x =
     [intField ''chunk-size-mb'' False (opt_ChunkSizeMB x),
      intField ''parallel-count'' False (opt_ParallelCount x),
      intField ''multireq-max'' False (opt_MultiReqMax x),
      intField ''stat-cache-size'' False (opt_StatCacheSize x),
      strField ''tls-cipher-suite'' True (opt_TLSCipherSuite x),
      boolField ''curl-debug'' True (opt_CurlDebug x),
      boolField ''kernel-cache'' True (opt_KernelCache x),
      strField ''debug-level'' False (opt_DebugLevel x),
      strField ''s3fs-fuse-retry-count'' True (opt_S3FSFUSERetryCount x),
      strField ''stat-cache-expire-seconds'' True (opt_StatCacheExpireSeconds x),
      strField ''iam-endpoint'' True (opt_IAMEndpoint x),
      strField ''object-store-endpoint'' True (opt_OSEndpoint x),
      strField ''object-store-storage-class'' True (opt_OSStorageClass x),
      strField ''bucket'' False (opt_Bucket x),
      strField ''object-path'' True (opt_ObjectPath x)]"

definition MarshalToMap_driverOptions :: "driverOptions \<Rightarrow> string + (string \<rightharpoonup> string)" where
  "MarshalToMap_driverOptions x = Inr (writeFields (driverFields x))"

definition readBool :: "(string \<rightharpoonup> string) \<Rightarrow> string \<Rightarrow> string + bool" where
  "readBool m k =
     (case m k of
        None \<Rightarrow> Inr False
      | Some v \<Rightarrow> if v = ''true'' then Inr True else if v = ''false'' then Inr False else Inl k)"

definition readInt :: "(string \<rightharpoonup> string) \<Rightarrow> string \<Rightarrow> string + int" where
  "readInt m k =
     (case m k of
        None \<Rightarrow> Inr 0
      | Some v \<Rightarrow> (case Atoi v of None \<Rightarrow> Inl k | Some n \<Rightarrow> Inr n))"

definition UnmarshalMap_pvcAnnotations :: "(string \<rightharpoonup> string) \<Rightarrow> string + pvcAnnotations" where
  "UnmarshalMap_pvcAnnotations m =
     (case readBool m ''ibm.io/auto-create-bucket'' of
        Inl e \<Rightarrow> Inl e
      | Inr ac \<Rightarrow>
     (case readBool m ''ibm.io/auto-delete-bucket'' of
        Inl e \<Rightarrow> Inl e
      | Inr ad \<Rightarrow>
          Inr \<lparr>AutoCreateBucket = ac,
               AutoDeleteBucket = ad,
               Bucket = lookup m ''ibm.io/bucket'',
               ObjectPath = lookup m ''ibm.io/object-path'',
               Endpoint = lookup m ''ibm.io/endpoint'',
               Region = lookup m ''ibm.io/region'',
               SecretName = lookup m ''ibm.io/secret-name'',
               ChunkSizeMB = lookup m ''ibm.io/chunk-size-mb'',
               ParallelCount = lookup m ''ibm.io/parallel-count'',
               MultiReqMax = lookup m ''ibm.io/multireq-max'',
               StatCacheSize = lookup m ''ibm.io/stat-cache-size'',
               S3FSFUSERetryCount = lookup m ''ibm.io/s3fs-fuse-retry-count'',
               StatCacheExpireSeconds = lookup m ''ibm.io/stat-cache-expire-seconds'',
               IAMEndpoint = lookup m ''ibm.io/iam-endpoint'',
               ValidateBucket = lookup m ''ibm.io/validate-bucket''\<rparr>))"

definition UnmarshalMap_pvAnnotations :: "(string \<rightharpoonup> string) \<Rightarrow> string + pvAnnotations" where
  "UnmarshalMap_pvAnnotations m =
     (case UnmarshalMap_pvcAnnotations m of
        Inl e \<Rightarrow> Inl e
      | Inr p \<Rightarrow> Inr \<lparr>pvc_embedded = p, SecretNamespace = lookup m ''ibm.io/secret-namespace''\<rparr>)"

definition UnmarshalMap_scOptions :: "(string \<rightharpoonup> string) \<Rightarrow> string + scOptions" where
  "UnmarshalMap_scOptions m =
     (case readInt m ''ibm.io/chunk-size-mb'' of Inl e \<Rightarrow> Inl e | Inr cs \<Rightarrow>
     (case readInt m ''ibm.io/parallel-count'' of Inl e \<Rightarrow> Inl e | Inr pc \<Rightarrow>
     (case readInt m ''ibm.io/multireq-max'' of Inl e \<Rightarrow> Inl e | Inr mr \<Rightarrow>
     (case readInt m ''ibm.io/stat-cache-size'' of Inl e \<Rightarrow> Inl e | Inr scs \<Rightarrow>
     (case readBool m ''ibm.io/curl-debug'' of Inl e \<Rightarrow> Inl e | Inr cd \<Rightarrow>
     (case readBool m ''ibm.io/kernel-cache'' of Inl e \<Rightarrow> Inl e | Inr kc \<Rightarrow>
     (case readInt m ''ibm.io/s3fs-fuse-retry-count'' of Inl e \<Rightarrow> Inl e | Inr rc \<Rightarrow>
        Inr \<lparr>sc_ChunkSizeMB = cs,
             sc_ParallelCount = pc,
             sc_MultiReqMax = mr,
             sc_StatCacheSize = scs,
             sc_TLSCipherSuite = lookup m ''ibm.io/tls-cipher-suite'',
             sc_DebugLevel = lookup m ''ibm.io/debug-level'',
             sc_CurlDebug = cd,
             sc_KernelCache = kc,
             sc_S3FSFUSERetryCount = rc,
             sc_IAMEndpoint = lookup m ''ibm.io/iam-endpoint'',
             sc_OSEndpoint = lookup m ''ibm.io/object-store-endpoint'',
             sc_OSStorageClass = lookup m ''ibm.io/object-store-storage-class''\<rparr>)))))))"

section \<open>Credentials\<close>

text \<open>
  Modelled from the spec: the names of the secret's fields, the constants
  \<^verbatim>\<open>driver.SecretAPIKey\<close>, \<^verbatim>\<open>driver.SecretAccessKey\<close>, \<^verbatim>\<open>driver.SecretSecretKey\<close> and
  \<^verbatim>\<open>driver.SecretServiceInstanceID\<close> of the package \<^verbatim>\<open>driver\<close>, which is not part of
  the source at hand (section 4.3 names the four fields).
\<close>

definition SecretAPIKey :: string where
  "SecretAPIKey = ''api-key''"

definition SecretAccessKey :: string where
  "SecretAccessKey = ''access-key''"

definition SecretSecretKey :: string where
  "SecretSecretKey = ''secret-key''"

definition SecretServiceInstanceID :: string where
  "SecretServiceInstanceID = ''service-instance-id''"

text \<open>\<^verbatim>\<open>parseSecret\<close> (lines 92-99).\<close>

definition parseSecret :: "(string \<rightharpoonup> string) \<Rightarrow> string \<Rightarrow> cred_error + string" where
  "parseSecret secret keyName =
     (case secret keyName of
        None \<Rightarrow> Inl (SecretMissing keyName)
      | Some bytesVal \<Rightarrow> Inr bytesVal)"

text \<open>
  \<^verbatim>\<open>getCredentials\<close> (lines 101-131). The error of reading the service instance id
  (line 121) is assigned and never looked at; the id stays empty then.
\<close>

definition getCredentials :: "env \<Rightarrow> string \<Rightarrow> string \<Rightarrow> (cred_error + credentials) \<times> event list" where
  "getCredentials p secretName secretNamespace =
     (case Client_SecretsGet p secretNamespace secretName of
        Inl err \<Rightarrow> (Inl (CannotGetSecret secretName err), [CallSecretsGet secretNamespace secretName])
      | Inr secrets \<Rightarrow>
          ((case parseSecret secrets SecretAPIKey of
              Inl _ \<Rightarrow>
                (case parseSecret secrets SecretAccessKey of
                   Inl err \<Rightarrow> Inl err
                 | Inr accessKey \<Rightarrow>
                     (case parseSecret secrets SecretSecretKey of
                        Inl err \<Rightarrow> Inl err
                      | Inr secretKey \<Rightarrow>
                          Inr \<lparr>AccessKey = accessKey, SecretKey = secretKey, APIKey = [],
                               ServiceInstanceID = [], cred_IAMEndpoint = []\<rparr>))
            | Inr apiKey \<Rightarrow>
                Inr \<lparr>AccessKey = [], SecretKey = [], APIKey = apiKey,
                     ServiceInstanceID =
                       (case parseSecret secrets SecretServiceInstanceID of
                          Inl _ \<Rightarrow> []
                        | Inr serviceInstanceID \<Rightarrow> serviceInstanceID),
                     cred_IAMEndpoint = []\<rparr>),
           [CallSecretsGet secretNamespace secretName]))"

section \<open>Provision\<close>

text \<open>The parts of \<^verbatim>\<open>controller.VolumeOptions\<close> and of the claim that \<^verbatim>\<open>Provision\<close> reads.\<close>

record PersistentVolumeClaim =
  pvc_Name :: string
  pvc_Namespace :: string
  pvc_Annotations :: "string \<rightharpoonup> string"
  pvc_AccessModes :: "string list"
  pvc_Requests :: "string \<rightharpoonup> string"

record VolumeOptions =
  PersistentVolumeReclaimPolicy :: string
  PVName :: string
  PVC :: PersistentVolumeClaim
  Parameters :: "string \<rightharpoonup> string"

record FlexPersistentVolumeSource =
  Driver :: string
  FSType :: string
  SecretRef :: string
  ReadOnly :: bool
  Options :: "string \<rightharpoonup> string"

record PersistentVolume =
  pv_Name :: string
  pv_Annotations :: "string \<rightharpoonup> string"
  pv_ReclaimPolicy :: string
  pv_AccessModes :: "string list"
  pv_Capacity :: "string \<rightharpoonup> string"
  pv_FlexVolume :: "FlexPersistentVolumeSource option"

definition driverName :: string where
  "driverName = ''ibm/ibmc-s3fs''"

definition autoBucketNamePrefix :: string where
  "autoBucketNamePrefix = ''tmp-s3fs-''"

definition fsType :: string where
  "fsType = []"

text \<open>Lines 148-155: the two calls of \<^verbatim>\<open>parser.UnmarshalMap\<close>.\<close>

definition unmarshalInputs :: "VolumeOptions \<Rightarrow> error + pvcAnnotations \<times> scOptions" where
  "unmarshalInputs options =
     (case UnmarshalMap_pvcAnnotations (pvc_Annotations (PVC options)) of
        Inl err \<Rightarrow> Inl (CannotUnmarshalPVCAnnotations err)
      | Inr pvc \<Rightarrow>
          (case UnmarshalMap_scOptions (Parameters options) of
             Inl err \<Rightarrow> Inl (CannotUnmarshalStorageClassParameters err)
           | Inr sc \<Rightarrow> Inr (pvc, sc)))"

text \<open>Has the endpoint one of the two schemes (the tests of lines 169 and 180)?\<close>

definition hasScheme :: "string \<Rightarrow> bool" where
  "hasScheme s = (HasPrefix s ''https://'' \<or> HasPrefix s ''http://'')"

text \<open>
  One numeric override (the pattern of lines 188-192, repeated at 195, 202, 209 and
  216): an empty claim value keeps the class value, otherwise the claim value is parsed.
\<close>

definition overrideInt :: "string \<Rightarrow> string \<Rightarrow> int \<Rightarrow> error + int" where
  "overrideInt name s classValue =
     (if s \<noteq> [] then
        (case Atoi s of None \<Rightarrow> Inl (CannotConvertToInteger name) | Some n \<Rightarrow> Inr n)
      else Inr classValue)"

text \<open>Lines 222-230: the check of \<^verbatim>\<open>stat-cache-expire-seconds\<close>.\<close>

definition checkStatCacheExpireSeconds :: "string \<Rightarrow> error option" where
  "checkStatCacheExpireSeconds s =
     (if s \<noteq> [] then
        (case Atoi s of
           None \<Rightarrow> Some (CannotConvertToInteger ''stat-cache-expire-seconds'')
         | Some cacheExpireSeconds \<Rightarrow>
             if cacheExpireSeconds < 0 then Some StatCacheExpireSecondsNegative else None)
      else None)"

text \<open>Lines 157-185: the overrides of the endpoint, the storage class and the IAM endpoint.\<close>

definition overrideEndpoints :: "pvcAnnotations \<Rightarrow> scOptions \<Rightarrow> error + scOptions" where
  "overrideEndpoints pvc sc0 =
     (let sc1 = (if Endpoint pvc \<noteq> [] then sc0\<lparr>sc_OSEndpoint := Endpoint pvc\<rparr> else sc0);
          sc2 = (if Region pvc \<noteq> [] then sc1\<lparr>sc_OSStorageClass := Region pvc\<rparr> else sc1)
      in if \<not> hasScheme (sc_OSEndpoint sc2) then Inl (BadObjectStoreEndpoint (sc_OSEndpoint sc2))
         else
           (let sc3 = (if IAMEndpoint pvc \<noteq> [] then sc2\<lparr>sc_IAMEndpoint := IAMEndpoint pvc\<rparr>
                       else sc2)
            in if \<not> hasScheme (sc_IAMEndpoint sc3) then Inl (BadIAMEndpoint (sc_IAMEndpoint sc3))
               else Inr sc3))"

text \<open>Lines 187-230: the numeric overrides, in the order of the source.\<close>

definition overrideNumbers :: "pvcAnnotations \<Rightarrow> scOptions \<Rightarrow> error + scOptions" where
  "overrideNumbers pvc sc =
     (case overrideInt ''s3fs-fuse-retry-count'' (S3FSFUSERetryCount pvc) (sc_S3FSFUSERetryCount sc) of
        Inl err \<Rightarrow> Inl err | Inr rc \<Rightarrow>
     (case overrideInt ''chunk-size-mb'' (ChunkSizeMB pvc) (sc_ChunkSizeMB sc) of
        Inl err \<Rightarrow> Inl err | Inr cs \<Rightarrow>
     (case overrideInt ''parallel-count'' (ParallelCount pvc) (sc_ParallelCount sc) of
        Inl err \<Rightarrow> Inl err | Inr pc \<Rightarrow>
     (case overrideInt ''multireq-max'' (MultiReqMax pvc) (sc_MultiReqMax sc) of
        Inl err \<Rightarrow> Inl err | Inr mr \<Rightarrow>
     (case overrideInt ''stat-cache-size'' (StatCacheSize pvc) (sc_StatCacheSize sc) of
        Inl err \<Rightarrow> Inl err | Inr scs \<Rightarrow>
     (case checkStatCacheExpireSeconds (StatCacheExpireSeconds pvc) of
        Some err \<Rightarrow> Inl err
      | None \<Rightarrow>
          Inr (sc\<lparr>sc_S3FSFUSERetryCount := rc, sc_ChunkSizeMB := cs, sc_ParallelCount := pc,
                  sc_MultiReqMax := mr, sc_StatCacheSize := scs\<rparr>)))))))"

text \<open>Lines 157-230 as a whole: the storage class options after all overrides.\<close>

definition mergeOptions :: "pvcAnnotations \<Rightarrow> scOptions \<Rightarrow> error + scOptions" where
  "mergeOptions pvc sc =
     (case overrideEndpoints pvc sc of
        Inl err \<Rightarrow> Inl err
      | Inr sc' \<Rightarrow> overrideNumbers pvc sc')"

text \<open>Lines 232-253: the rules on the bucket flags, and the generated bucket name.\<close>

definition checkBucketPolicy :: "env \<Rightarrow> pvcAnnotations \<Rightarrow> pvcAnnotations run" where
  "checkBucketPolicy p pvc =
     (if AutoCreateBucket pvc \<and> ObjectPath pvc \<noteq> [] then
        (Err (ObjectPathWithAutoCreate (ObjectPath pvc)), [])
      else if AutoDeleteBucket pvc then
        (if \<not> AutoCreateBucket pvc then (Err AutoCreateMustBeEnabled, [])
         else if Bucket pvc \<noteq> [] then (Err (BucketSetWithAutoDelete (Bucket pvc)), [])
         else
           (case UUIDGenerator_New p of
              Inl err \<Rightarrow> (Err (CannotCreateUUID err), [CallUUIDNew])
            | Inr uid \<Rightarrow> (Ok (pvc\<lparr>Bucket := autoBucketNamePrefix @ uid\<rparr>), [CallUUIDNew])))
      else if Bucket pvc = [] then (Err BucketNameNotSpecified, [])
      else (Ok pvc, []))"

text \<open>Lines 255-259: the value of \<^verbatim>\<open>valBucket\<close>.\<close>

definition valBucket :: "pvcAnnotations \<Rightarrow> bool" where
  "valBucket pvc =
     (if ValidateBucket pvc = ''no'' \<and> \<not> AutoCreateBucket pvc then False else True)"

text \<open>
  Lines 262-270: credentials and session; both stay nil (\<open>None\<close>) when \<^verbatim>\<open>valBucket\<close>
  is false.
\<close>

definition openSession ::
  "env \<Rightarrow> pvcAnnotations \<Rightarrow> scOptions \<Rightarrow> string \<Rightarrow> (credentials option \<times> session option) run" where
  "openSession p pvc sc namespace =
     (if valBucket pvc then
        (case getCredentials p (SecretName pvc) namespace of
           (Inl err, t) \<Rightarrow> (Err (CannotGetCredentials err), t)
         | (Inr c, t) \<Rightarrow>
             (let creds = c\<lparr>cred_IAMEndpoint := sc_IAMEndpoint sc\<rparr>;
                  sess = ObjectStorageSession (sc_OSEndpoint sc) (sc_OSStorageClass sc) creds
              in (Ok (Some creds, Some sess), t @ [CallNewSession sess])))
      else (Ok (None, None), []))"

text \<open>Lines 272-283: bucket creation.\<close>

definition createBucketStep ::
  "env \<Rightarrow> pvcAnnotations \<Rightarrow> credentials option \<Rightarrow> session option \<Rightarrow> unit run" where
  "createBucketStep p pvc creds sess =
     (if AutoCreateBucket pvc then
        (case creds of
           None \<Rightarrow> (Panic, [])
         | Some c \<Rightarrow>
             if APIKey c \<noteq> [] \<and> ServiceInstanceID c = [] then
               (Err APIKeyWithoutServiceInstanceID, [])
             else
               (case sess of
                  None \<Rightarrow> (Panic, [])
                | Some s \<Rightarrow>
                    (case Session_CreateBucket p s (Bucket pvc) of
                       (msg, Some err) \<Rightarrow>
                         (Err (CannotCreateBucket (Bucket pvc) err), [CallCreateBucket s (Bucket pvc)])
                     | (msg, None) \<Rightarrow> (Ok (), [CallCreateBucket s (Bucket pvc)]))))
      else (Ok (), []))"

text \<open>Lines 285-290: the access check.\<close>

definition checkAccessStep :: "env \<Rightarrow> pvcAnnotations \<Rightarrow> session option \<Rightarrow> unit run" where
  "checkAccessStep p pvc sess =
     (if valBucket pvc then
        (case sess of
           None \<Rightarrow> (Panic, [])
         | Some s \<Rightarrow>
             (case Session_CheckBucketAccess p s (Bucket pvc) of
                Some err \<Rightarrow>
                  (Err (CannotAccessBucket (Bucket pvc) err), [CallCheckBucketAccess s (Bucket pvc)])
              | None \<Rightarrow> (Ok (), [CallCheckBucketAccess s (Bucket pvc)])))
      else (Ok (), []))"

text \<open>Lines 292-299: the existence check of the object path.\<close>

definition checkObjectPathStep :: "env \<Rightarrow> pvcAnnotations \<Rightarrow> session option \<Rightarrow> unit run" where
  "checkObjectPathStep p pvc sess =
     (if ObjectPath pvc \<noteq> [] then
        (case sess of
           None \<Rightarrow> (Panic, [])
         | Some s \<Rightarrow>
             (case Session_CheckObjectPathExistence p s (Bucket pvc) (ObjectPath pvc) of
                (exist, Some err) \<Rightarrow>
                  (Err (CannotAccessObjectPath (ObjectPath pvc) (Bucket pvc) err),
                   [CallCheckObjectPathExistence s (Bucket pvc) (ObjectPath pvc)])
              | (exist, None) \<Rightarrow>
                  if \<not> exist then
                    (Err (ObjectPathNotFound (ObjectPath pvc) (Bucket pvc)),
                     [CallCheckObjectPathExistence s (Bucket pvc) (ObjectPath pvc)])
                  else (Ok (), [CallCheckObjectPathExistence s (Bucket pvc) (ObjectPath pvc)])))
      else (Ok (), []))"

text \<open>Lines 301-317: the options handed to the mount driver.\<close>

definition driverOptionsOf :: "pvcAnnotations \<Rightarrow> scOptions \<Rightarrow> driverOptions" where
  "driverOptionsOf pvc sc =
     \<lparr>opt_ChunkSizeMB = sc_ChunkSizeMB sc,
      opt_ParallelCount = sc_ParallelCount sc,
      opt_MultiReqMax = sc_MultiReqMax sc,
      opt_StatCacheSize = sc_StatCacheSize sc,
      opt_TLSCipherSuite = sc_TLSCipherSuite sc,
      opt_CurlDebug = sc_CurlDebug sc,
      opt_KernelCache = sc_KernelCache sc,
      opt_DebugLevel = sc_DebugLevel sc,
      opt_S3FSFUSERetryCount = Itoa (sc_S3FSFUSERetryCount sc),
      opt_StatCacheExpireSeconds = StatCacheExpireSeconds pvc,
      opt_IAMEndpoint = sc_IAMEndpoint sc,
      opt_OSEndpoint = sc_OSEndpoint sc,
      opt_OSStorageClass = sc_OSStorageClass sc,
      opt_Bucket = Bucket pvc,
      opt_ObjectPath = ObjectPath pvc\<rparr>"

text \<open>Lines 301-351: the two marshalled maps and the volume returned.\<close>

definition buildVolume :: "VolumeOptions \<Rightarrow> pvcAnnotations \<Rightarrow> scOptions \<Rightarrow> error + PersistentVolume" where
  "buildVolume options pvc sc =
     (case MarshalToMap_driverOptions (driverOptionsOf pvc sc) of
        Inl err \<Rightarrow> Inl (CannotMarshalDriverOptions err)
      | Inr driverOpts \<Rightarrow>
          (case MarshalToMap_pvAnnotations
                  \<lparr>pvc_embedded = pvc, SecretNamespace = pvc_Namespace (PVC options)\<rparr> of
             Inl err \<Rightarrow> Inl (CannotMarshalPVOptions err)
           | Inr pvAnnots \<Rightarrow>
               Inr \<lparr>pv_Name = PVName options,
                    pv_Annotations = pvAnnots,
                    pv_ReclaimPolicy = PersistentVolumeReclaimPolicy options,
                    pv_AccessModes = pvc_AccessModes (PVC options),
                    pv_Capacity = [''storage'' \<mapsto> lookup (pvc_Requests (PVC options)) ''storage''],
                    pv_FlexVolume =
                      Some \<lparr>Driver = driverName, FSType = fsType, SecretRef = SecretName pvc,
                            ReadOnly = False, Options = driverOpts\<rparr>\<rparr>))"

text \<open>Lines 255-299: everything between the policy rules and the marshalling.\<close>

definition bucketLifecycle :: "env \<Rightarrow> pvcAnnotations \<Rightarrow> scOptions \<Rightarrow> string \<Rightarrow> unit run" where
  "bucketLifecycle p pvc sc namespace =
     andThen (openSession p pvc sc namespace) (\<lambda>(creds, sess).
     andThen (createBucketStep p pvc creds sess) (\<lambda>_.
     andThen (checkAccessStep p pvc sess) (\<lambda>_.
     checkObjectPathStep p pvc sess)))"

text \<open>\<^verbatim>\<open>Provision\<close> (lines 134-352).\<close>

definition Provision :: "env \<Rightarrow> VolumeOptions \<Rightarrow> PersistentVolume run" where
  "Provision p options =
     andThen (pure (unmarshalInputs options)) (\<lambda>(pvc0, sc0).
     andThen (pure (mergeOptions pvc0 sc0)) (\<lambda>sc.
     andThen (checkBucketPolicy p pvc0) (\<lambda>pvc.
     andThen (bucketLifecycle p pvc sc (pvc_Namespace (PVC options))) (\<lambda>_.
     pure (buildVolume options pvc sc)))))"

section \<open>Delete\<close>

text \<open>\<^verbatim>\<open>deleteBucket\<close> (lines 380-389).\<close>

definition deleteBucket ::
  "env \<Rightarrow> pvAnnotations \<Rightarrow> string \<Rightarrow> string \<Rightarrow> string \<Rightarrow> error option \<times> event list" where
  "deleteBucket p pvAnnots endpointValue regionValue iamEndpoint =
     (case getCredentials p (SecretName (pvc_embedded pvAnnots)) (SecretNamespace pvAnnots) of
        (Inl err, t) \<Rightarrow> (Some (CannotGetCredentials err), t)
      | (Inr c, t) \<Rightarrow>
          (let creds = c\<lparr>cred_IAMEndpoint := iamEndpoint\<rparr>;
               sess = ObjectStorageSession endpointValue regionValue creds
           in ((case Session_DeleteBucket p sess (Bucket (pvc_embedded pvAnnots)) of
                  Some err \<Rightarrow> Some (BackendDeleteFailed err)
                | None \<Rightarrow> None),
               t @ [CallNewSession sess, CallDeleteBucket sess (Bucket (pvc_embedded pvAnnots))])))"

text \<open>
  \<^verbatim>\<open>Delete\<close> (lines 355-378). The three reads of lines 361-363 go through the pointer
  \<^verbatim>\<open>FlexVolume\<close> of the volume.
\<close>

definition Delete :: "env \<Rightarrow> PersistentVolume \<Rightarrow> unit run" where
  "Delete p pv =
     (case pv_FlexVolume pv of
        None \<Rightarrow> (Panic, [])
      | Some flex \<Rightarrow>
          (let endpointValue = lookup (Options flex) ''object-store-endpoint'';
               regionValue = lookup (Options flex) ''object-store-storage-class'';
               iamEndpoint = lookup (Options flex) ''iam-endpoint''
           in (case UnmarshalMap_pvAnnotations (pv_Annotations pv) of
                 Inl err \<Rightarrow> (Err (CannotUnmarshalPVAnnotations err), [])
               | Inr pvAnnots \<Rightarrow>
                   if AutoDeleteBucket (pvc_embedded pvAnnots) then
                     (case deleteBucket p pvAnnots endpointValue regionValue iamEndpoint of
                        (Some err, t) \<Rightarrow> (Err (CannotDeleteBucket err), t)
                      | (None, t) \<Rightarrow> (Ok (), t))
                   else (Ok (), []))))"

section \<open>Concrete collaborators and inputs\<close>

text \<open>
  A cluster with one secret \<^verbatim>\<open>default/s1\<close> holding an access key pair, a generator that
  hands out the token \<^verbatim>\<open>0001\<close>, and a backend on which every call succeeds.
\<close>

definition exampleEnv :: env where
  "exampleEnv =
     \<lparr>Client_SecretsGet = (\<lambda>ns name. if ns = ''default'' \<and> name = ''s1''
          then Inr (map_of [(''access-key'', ''AK''), (''secret-key'', ''SK'')])
          else Inl ''not found''),
      UUIDGenerator_New = Inr ''0001'',
      Session_CreateBucket = (\<lambda>s b. ([], None)),
      Session_CheckBucketAccess = (\<lambda>s b. None),
      Session_CheckObjectPathExistence = (\<lambda>s b path. (True, None)),
      Session_DeleteBucket = (\<lambda>s b. None)\<rparr>"

text \<open>A claim \<^verbatim>\<open>default/claim1\<close> with the given annotations and class parameters.\<close>

definition exampleOptions :: "(string \<times> string) list \<Rightarrow> (string \<times> string) list \<Rightarrow> VolumeOptions" where
  "exampleOptions ann params =
     \<lparr>PersistentVolumeReclaimPolicy = ''Delete'', PVName = ''pv1'',
      PVC = \<lparr>pvc_Name = ''claim1'', pvc_Namespace = ''default'', pvc_Annotations = map_of ann,
             pvc_AccessModes = [''ReadWriteMany''],
             pvc_Requests = map_of [(''storage'', ''1Gi'')]\<rparr>,
      Parameters = map_of params\<rparr>"

definition exampleClass :: "(string \<times> string) list" where
  "exampleClass =
     [(''ibm.io/object-store-endpoint'', ''https://s3.example.com''),
      (''ibm.io/object-store-storage-class'', ''standard''),
      (''ibm.io/iam-endpoint'', ''https://iam.example.com''),
      (''ibm.io/chunk-size-mb'', ''16'')]"

text \<open>The class parameters above, unmarshalled.\<close>

definition exampleSc :: scOptions where
  "exampleSc =
     \<lparr>sc_ChunkSizeMB = 16, sc_ParallelCount = 0, sc_MultiReqMax = 0, sc_StatCacheSize = 0,
      sc_TLSCipherSuite = [], sc_DebugLevel = [], sc_CurlDebug = False, sc_KernelCache = False,
      sc_S3FSFUSERetryCount = 0, sc_IAMEndpoint = ''https://iam.example.com'',
      sc_OSEndpoint = ''https://s3.example.com'', sc_OSStorageClass = ''standard''\<rparr>"

text \<open>Claim annotations with every field at its zero value.\<close>

definition emptyPvc :: pvcAnnotations where
  "emptyPvc =
     \<lparr>AutoCreateBucket = False, AutoDeleteBucket = False, Bucket = [], ObjectPath = [],
      Endpoint = [], Region = [], SecretName = [], ChunkSizeMB = [], ParallelCount = [],
      MultiReqMax = [], StatCacheSize = [], S3FSFUSERetryCount = [],
      StatCacheExpireSeconds = [], IAMEndpoint = [], ValidateBucket = []\<rparr>"

text \<open>A persisted volume with the given annotations and mount options.\<close>

definition exampleVolume :: "(string \<times> string) list \<Rightarrow> (string \<times> string) list \<Rightarrow> PersistentVolume" where
  "exampleVolume ann opts =
     \<lparr>pv_Name = ''pv1'', pv_Annotations = map_of ann, pv_ReclaimPolicy = ''Delete'',
      pv_AccessModes = [''ReadWriteMany''], pv_Capacity = map_of [(''storage'', ''1Gi'')],
      pv_FlexVolume = Some \<lparr>Driver = driverName, FSType = fsType, SecretRef = ''s1'',
                            ReadOnly = False, Options = map_of opts\<rparr>\<rparr>"

text \<open>The cluster above, except that every secret lookup finds the given secret.\<close>

definition secretEnv :: "(string \<times> string) list \<Rightarrow> env" where
  "secretEnv secret = exampleEnv\<lparr>Client_SecretsGet := (\<lambda>ns name. Inr (map_of secret))\<rparr>"

text \<open>A second storage class, with another object store endpoint.\<close>

definition otherClass :: "(string \<times> string) list" where
  "otherClass =
     [(''ibm.io/object-store-endpoint'', ''https://s3.other.example.com''),
      (''ibm.io/object-store-storage-class'', ''standard''),
      (''ibm.io/iam-endpoint'', ''https://iam.example.com''),
      (''ibm.io/chunk-size-mb'', ''16'')]"


section \<open>Sequencing and the stages of Provision\<close>

lemmas example_defs = exampleEnv_def exampleOptions_def exampleClass_def exampleVolume_def
  exampleSc_def emptyPvc_def

lemmas unmarshal_defs = unmarshalInputs_def UnmarshalMap_pvAnnotations_def
  UnmarshalMap_pvcAnnotations_def UnmarshalMap_scOptions_def readBool_def readInt_def lookup_def
  Atoi_def isDigit_def

lemmas merge_defs = mergeOptions_def overrideEndpoints_def overrideNumbers_def overrideInt_def
  checkStatCacheExpireSeconds_def hasScheme_def HasPrefix_def Atoi_def isDigit_def

lemma andThen_Ok: "andThen (Ok x, t) f = (fst (f x), t @ snd (f x))"
  by (simp add: andThen_def split: prod.splits)

lemma andThen_Err: "andThen (Err e, t) f = (Err e, t)"
  by (simp add: andThen_def)

lemma andThen_Panic: "andThen (Panic, t) f = (Panic, t)"
  by (simp add: andThen_def)

lemma andThen_pure_Inr: "andThen (pure (Inr x)) f = f x"
  by (simp add: andThen_def pure_def split: prod.splits)

lemma andThen_pure_Inl: "andThen (pure (Inl e)) f = (Err e, [])"
  by (simp add: andThen_def pure_def)

lemma getCredentials_trace:
  "snd (getCredentials p name ns) = [CallSecretsGet ns name]"
  by (simp add: getCredentials_def split: sum.splits)

lemma Provision_unmarshal_fails:
  "unmarshalInputs options = Inl e \<Longrightarrow> Provision p options = (Err e, [])"
  by (simp add: Provision_def andThen_pure_Inl)

lemma Provision_merge_fails:
  "unmarshalInputs options = Inr (pvc, sc) \<Longrightarrow> mergeOptions pvc sc = Inl e \<Longrightarrow>
   Provision p options = (Err e, [])"
  by (simp add: Provision_def andThen_pure_Inl andThen_pure_Inr)

lemma Provision_after_merge:
  "unmarshalInputs options = Inr (pvc0, sc0) \<Longrightarrow> mergeOptions pvc0 sc0 = Inr sc \<Longrightarrow>
   Provision p options =
     andThen (checkBucketPolicy p pvc0) (\<lambda>pvc.
     andThen (bucketLifecycle p pvc sc (pvc_Namespace (PVC options))) (\<lambda>_.
     pure (buildVolume options pvc sc)))"
  by (simp add: Provision_def andThen_pure_Inr)

lemma Provision_policy_fails:
  "unmarshalInputs options = Inr (pvc, sc) \<Longrightarrow> mergeOptions pvc sc = Inr sc' \<Longrightarrow>
   checkBucketPolicy p pvc = (Err e, t) \<Longrightarrow> Provision p options = (Err e, t)"
  by (simp add: Provision_after_merge andThen_Err)

lemma Provision_early_error:
  assumes "UnmarshalMap_pvcAnnotations (pvc_Annotations (PVC options)) = Inr pvc"
    and "checkBucketPolicy p pvc = (Err e, [])"
  shows "\<exists>e'. Provision p options = (Err e', [])"
proof (cases "unmarshalInputs options")
  case (Inl e1)
  then show ?thesis by (simp add: Provision_unmarshal_fails)
next
  case (Inr r)
  then obtain pvc' sc where r: "unmarshalInputs options = Inr (pvc', sc)"
    by (cases r) simp
  with assms(1) have "pvc' = pvc"
    by (auto simp: unmarshalInputs_def split: sum.splits)
  with r have u: "unmarshalInputs options = Inr (pvc, sc)" by simp
  show ?thesis
  proof (cases "mergeOptions pvc sc")
    case (Inl e2)
    with u show ?thesis by (simp add: Provision_merge_fails)
  next
    case (Inr sc')
    with u assms(2) show ?thesis by (simp add: Provision_policy_fails)
  qed
qed

lemma example_unmarshal_sc: "UnmarshalMap_scOptions (map_of exampleClass) = Inr exampleSc"
  by (simp add: example_defs unmarshal_defs)

lemma example_merge_empty: "mergeOptions (emptyPvc\<lparr>AutoCreateBucket := ac, AutoDeleteBucket := ad,
    Bucket := b, ObjectPath := op, SecretName := sn, ValidateBucket := vb\<rparr>) exampleSc = Inr exampleSc"
  by (simp add: example_defs merge_defs)

lemma andThen_eq_Ok:
  "andThen m f = (Ok y, t) \<longleftrightarrow> (\<exists>x t1 t2. m = (Ok x, t1) \<and> f x = (Ok y, t2) \<and> t = t1 @ t2)"
  by (cases m; cases "fst m") (auto simp: andThen_def split: prod.splits)

lemma pure_eq_Ok: "pure r = (Ok x, t) \<longleftrightarrow> r = Inr x \<and> t = []"
  by (auto simp: pure_def split: sum.splits)

lemma Provision_eq_Ok:
  "Provision p options = (Ok pv, t) \<longleftrightarrow>
     (\<exists>pvc0 sc0 sc pvc t0 t1.
        unmarshalInputs options = Inr (pvc0, sc0) \<and> mergeOptions pvc0 sc0 = Inr sc \<and>
        checkBucketPolicy p pvc0 = (Ok pvc, t0) \<and>
        bucketLifecycle p pvc sc (pvc_Namespace (PVC options)) = (Ok (), t1) \<and>
        buildVolume options pvc sc = Inr pv \<and> t = t0 @ t1)"
proof (cases "unmarshalInputs options")
  case (Inl e)
  then show ?thesis by (simp add: Provision_unmarshal_fails)
next
  case (Inr r)
  then obtain pvc0 sc0 where u: "unmarshalInputs options = Inr (pvc0, sc0)"
    by (cases r) simp
  show ?thesis
  proof (cases "mergeOptions pvc0 sc0")
    case (Inl e)
    with u show ?thesis by (simp add: Provision_merge_fails)
  next
    case (Inr sc)
    with u show ?thesis
      by (simp add: Provision_after_merge andThen_eq_Ok pure_eq_Ok)
  qed
qed

lemma checkBucketPolicy_eq_Ok:
  "checkBucketPolicy p pvc = (Ok pvc', t) \<longleftrightarrow>
     \<not> (AutoCreateBucket pvc \<and> ObjectPath pvc \<noteq> []) \<and>
     (if AutoDeleteBucket pvc
      then AutoCreateBucket pvc \<and> Bucket pvc = [] \<and>
           (\<exists>uid. UUIDGenerator_New p = Inr uid \<and>
                  pvc' = pvc\<lparr>Bucket := autoBucketNamePrefix @ uid\<rparr>) \<and> t = [CallUUIDNew]
      else Bucket pvc \<noteq> [] \<and> pvc' = pvc \<and> t = [])"
  by (auto simp: checkBucketPolicy_def split: sum.splits)

lemma checkBucketPolicy_flags:
  "checkBucketPolicy p pvc = (Ok pvc', t) \<Longrightarrow>
     AutoCreateBucket pvc' = AutoCreateBucket pvc \<and> AutoDeleteBucket pvc' = AutoDeleteBucket pvc \<and>
     ObjectPath pvc' = ObjectPath pvc \<and> ValidateBucket pvc' = ValidateBucket pvc \<and>
     SecretName pvc' = SecretName pvc \<and> valBucket pvc' = valBucket pvc \<and>
     Endpoint pvc' = Endpoint pvc \<and> Region pvc' = Region pvc \<and> IAMEndpoint pvc' = IAMEndpoint pvc \<and>
     Bucket pvc' \<noteq> []"
  by (auto simp: checkBucketPolicy_eq_Ok valBucket_def autoBucketNamePrefix_def split: if_splits)

lemma bucketLifecycle_no_validation:
  "\<not> valBucket pvc \<Longrightarrow>
   bucketLifecycle p pvc sc ns = (if ObjectPath pvc \<noteq> [] then (Panic, []) else (Ok (), []))"
  by (auto simp: bucketLifecycle_def openSession_def createBucketStep_def checkAccessStep_def
      checkObjectPathStep_def andThen_Ok valBucket_def split: if_splits)

lemma bucketLifecycle_credentials_fail:
  "valBucket pvc \<Longrightarrow> getCredentials p (SecretName pvc) ns = (Inl e, t) \<Longrightarrow>
   bucketLifecycle p pvc sc ns = (Err (CannotGetCredentials e), t)"
  by (simp add: bucketLifecycle_def openSession_def andThen_Err)

lemma bucketLifecycle_credentials_ok:
  "valBucket pvc \<Longrightarrow> getCredentials p (SecretName pvc) ns = (Inr c, t) \<Longrightarrow>
   creds = c\<lparr>cred_IAMEndpoint := sc_IAMEndpoint sc\<rparr> \<Longrightarrow>
   s = ObjectStorageSession (sc_OSEndpoint sc) (sc_OSStorageClass sc) creds \<Longrightarrow>
   bucketLifecycle p pvc sc ns =
     andThen (Ok (), t @ [CallNewSession s]) (\<lambda>_.
     andThen (createBucketStep p pvc (Some creds) (Some s)) (\<lambda>_.
     andThen (checkAccessStep p pvc (Some s)) (\<lambda>_.
     checkObjectPathStep p pvc (Some s))))"
  by (simp add: bucketLifecycle_def openSession_def Let_def andThen_Ok)








lemmas lifecycle_defs = bucketLifecycle_def openSession_def createBucketStep_def
  checkAccessStep_def checkObjectPathStep_def valBucket_def getCredentials_def parseSecret_def
  SecretAPIKey_def SecretAccessKey_def SecretSecretKey_def SecretServiceInstanceID_def

lemma example_unmarshal_inputs:
  "unmarshalInputs (exampleOptions [(''ibm.io/auto-create-bucket'', FormatBool ac),
      (''ibm.io/auto-delete-bucket'', FormatBool ad), (''ibm.io/bucket'', b),
      (''ibm.io/object-path'', op), (''ibm.io/secret-name'', sn), (''ibm.io/validate-bucket'', vb)]
      exampleClass) =
   Inr (emptyPvc\<lparr>AutoCreateBucket := ac, AutoDeleteBucket := ad, Bucket := b, ObjectPath := op,
          SecretName := sn, ValidateBucket := vb\<rparr>, exampleSc)"
  by (cases ac; cases ad) (simp_all add: example_defs unmarshal_defs FormatBool_def)

lemmas build_defs = buildVolume_def MarshalToMap_driverOptions_def MarshalToMap_pvAnnotations_def
  pure_def

lemma example_generated:
  "\<exists>pv s. Provision exampleEnv (exampleOptions [(''ibm.io/auto-create-bucket'', FormatBool True),
      (''ibm.io/auto-delete-bucket'', FormatBool True), (''ibm.io/bucket'', []),
      (''ibm.io/object-path'', []), (''ibm.io/secret-name'', ''s1''),
      (''ibm.io/validate-bucket'', ''no'')] exampleClass) =
   (Ok pv, [CallUUIDNew, CallSecretsGet ''default'' ''s1'', CallNewSession s,
            CallCreateBucket s ''tmp-s3fs-0001'', CallCheckBucketAccess s ''tmp-s3fs-0001''])"
  unfolding Provision_after_merge [OF example_unmarshal_inputs example_merge_empty]
  by (simp add: checkBucketPolicy_def emptyPvc_def andThen_Ok lifecycle_defs build_defs
      exampleEnv_def exampleOptions_def exampleSc_def autoBucketNamePrefix_def Let_def)


section \<open>Marshalling and the volume built\<close>

lemma writeFields_Cons_apply:
  "writeFields ((k, omit, v, zero) # fs) k' =
     (if k' = k \<and> \<not> (omit \<and> zero) then Some v else writeFields fs k')"
  by auto

lemma readBool_FormatBool:
  "m k = Some (FormatBool b) \<Longrightarrow> readBool m k = Inr b"
  by (simp add: readBool_def FormatBool_def)

lemma pv_lookups:
  fixes x :: pvAnnotations
  defines "m \<equiv> writeFields (pvcFields (pvc_embedded x) @
            [strField ''ibm.io/secret-namespace'' False (SecretNamespace x)])"
  shows "m ''ibm.io/auto-create-bucket'' = Some (FormatBool (AutoCreateBucket (pvc_embedded x)))"
    and "m ''ibm.io/auto-delete-bucket'' = Some (FormatBool (AutoDeleteBucket (pvc_embedded x)))"
    and "lookup m ''ibm.io/bucket'' = Bucket (pvc_embedded x)"
    and "lookup m ''ibm.io/object-path'' = ObjectPath (pvc_embedded x)"
    and "lookup m ''ibm.io/endpoint'' = Endpoint (pvc_embedded x)"
    and "lookup m ''ibm.io/region'' = Region (pvc_embedded x)"
    and "lookup m ''ibm.io/secret-name'' = SecretName (pvc_embedded x)"
    and "lookup m ''ibm.io/chunk-size-mb'' = ChunkSizeMB (pvc_embedded x)"
    and "lookup m ''ibm.io/parallel-count'' = ParallelCount (pvc_embedded x)"
    and "lookup m ''ibm.io/multireq-max'' = MultiReqMax (pvc_embedded x)"
    and "lookup m ''ibm.io/stat-cache-size'' = StatCacheSize (pvc_embedded x)"
    and "lookup m ''ibm.io/s3fs-fuse-retry-count'' = S3FSFUSERetryCount (pvc_embedded x)"
    and "lookup m ''ibm.io/stat-cache-expire-seconds'' = StatCacheExpireSeconds (pvc_embedded x)"
    and "lookup m ''ibm.io/iam-endpoint'' = IAMEndpoint (pvc_embedded x)"
    and "lookup m ''ibm.io/validate-bucket'' = ValidateBucket (pvc_embedded x)"
    and "lookup m ''ibm.io/secret-namespace'' = SecretNamespace x"
  unfolding m_def pvcFields_def strField_def boolField_def lookup_def
  by (simp_all only: append.simps writeFields_Cons_apply writeFields.simps(1))
     (simp_all)

lemma Unmarshal_Marshal_pvAnnotations:
  "MarshalToMap_pvAnnotations x = Inr m \<Longrightarrow> UnmarshalMap_pvAnnotations m = Inr x"
  unfolding MarshalToMap_pvAnnotations_def UnmarshalMap_pvAnnotations_def
    UnmarshalMap_pvcAnnotations_def
  by (auto simp: pv_lookups readBool_FormatBool)

lemma driver_lookups:
  fixes x :: driverOptions
  defines "m \<equiv> writeFields (driverFields x)"
  shows "lookup m ''object-store-endpoint'' = opt_OSEndpoint x"
    and "lookup m ''object-store-storage-class'' = opt_OSStorageClass x"
    and "lookup m ''iam-endpoint'' = opt_IAMEndpoint x"
    and "lookup m ''bucket'' = opt_Bucket x"
    and "lookup m ''chunk-size-mb'' = Itoa (opt_ChunkSizeMB x)"
    and "lookup m ''parallel-count'' = Itoa (opt_ParallelCount x)"
    and "lookup m ''multireq-max'' = Itoa (opt_MultiReqMax x)"
    and "lookup m ''stat-cache-size'' = Itoa (opt_StatCacheSize x)"
    and "lookup m ''s3fs-fuse-retry-count'' = opt_S3FSFUSERetryCount x"
  unfolding m_def driverFields_def strField_def boolField_def intField_def lookup_def
  by (simp_all only: writeFields_Cons_apply writeFields.simps(1))
     (simp_all)

lemma buildVolume_eq:
  "buildVolume options pvc sc = Inr pv \<Longrightarrow>
     MarshalToMap_pvAnnotations \<lparr>pvc_embedded = pvc, SecretNamespace = pvc_Namespace (PVC options)\<rparr>
       = Inr (pv_Annotations pv) \<and>
     (\<exists>flex. pv_FlexVolume pv = Some flex \<and>
        Options flex = writeFields (driverFields (driverOptionsOf pvc sc)))"
  by (auto simp: buildVolume_def MarshalToMap_driverOptions_def MarshalToMap_pvAnnotations_def)

lemma buildVolume_total: "\<exists>pv. buildVolume options pvc sc = Inr pv"
  by (simp add: buildVolume_def MarshalToMap_driverOptions_def MarshalToMap_pvAnnotations_def)

lemma bucketLifecycle_no_uuid:
  "CallUUIDNew \<notin> set (snd (bucketLifecycle p pvc sc ns))"
proof (cases "valBucket pvc")
  case False
  then show ?thesis by (simp add: bucketLifecycle_no_validation)
next
  case v: True
  obtain r t where g: "getCredentials p (SecretName pvc) ns = (r, t)" by fastforce
  with getCredentials_trace [of p "SecretName pvc" ns] have t: "t = [CallSecretsGet ns (SecretName pvc)]"
    by simp
  show ?thesis
  proof (cases r)
    case (Inl e)
    with v g t show ?thesis by (simp add: bucketLifecycle_credentials_fail)
  next
    case (Inr c)
    with v g t show ?thesis
      by (simp add: bucketLifecycle_credentials_ok [OF v _ refl refl] andThen_def
          createBucketStep_def checkAccessStep_def checkObjectPathStep_def
          split: prod.splits result.splits option.splits if_splits)
  qed
qed

lemma Provision_trace_after_merge:
  assumes "unmarshalInputs options = Inr (pvc, sc)" "mergeOptions pvc sc = Inr sc'"
  shows "\<exists>r. snd (Provision p options) = snd (checkBucketPolicy p pvc) @ r \<and> CallUUIDNew \<notin> set r"
proof -
  obtain x t0 where c: "checkBucketPolicy p pvc = (x, t0)" by fastforce
  show ?thesis
  proof (cases x)
    case (Ok pvc')
    obtain y t1 where l: "bucketLifecycle p pvc' sc' (pvc_Namespace (PVC options)) = (y, t1)"
      by fastforce
    from bucketLifecycle_no_uuid [of p pvc' sc' "pvc_Namespace (PVC options)"] l
    have n: "CallUUIDNew \<notin> set t1" by simp
    from assms c Ok l n show ?thesis
      by (cases y) (simp_all add: Provision_after_merge andThen_Ok andThen_Err andThen_Panic
          pure_def split: sum.splits)
  next
    case (Err e)
    with assms c show ?thesis by (simp add: Provision_after_merge andThen_Err)
  next
    case Panic
    with assms c show ?thesis by (simp add: Provision_after_merge andThen_Panic)
  qed
qed

lemma checkBucketPolicy_generates:
  "snd (checkBucketPolicy p pvc) =
     (if AutoDeleteBucket pvc \<and> AutoCreateBucket pvc \<and> Bucket pvc = [] \<and> ObjectPath pvc = []
      then [CallUUIDNew] else [])"
  by (auto simp: checkBucketPolicy_def split: sum.splits)

lemma Provision_uuid_iff:
  assumes "unmarshalInputs options = Inr (pvc, sc)" "mergeOptions pvc sc = Inr sc'"
  shows "CallUUIDNew \<in> set (snd (Provision p options)) \<longleftrightarrow>
     AutoDeleteBucket pvc \<and> AutoCreateBucket pvc \<and> Bucket pvc = [] \<and> ObjectPath pvc = []"
  using Provision_trace_after_merge [OF assms, of p]
  by (auto simp: checkBucketPolicy_generates split: if_splits)

lemma Provision_uuid_only_if:
  assumes "unmarshalInputs options = Inr (pvc, sc)"
    and "CallUUIDNew \<in> set (snd (Provision p options))"
  shows "AutoDeleteBucket pvc \<and> AutoCreateBucket pvc \<and> Bucket pvc = [] \<and> ObjectPath pvc = []"
proof (cases "mergeOptions pvc sc")
  case (Inl e)
  with assms show ?thesis by (simp add: Provision_merge_fails)
next
  case (Inr sc')
  with assms show ?thesis by (simp add: Provision_uuid_iff)
qed

lemma Provision_Ok_bucket:
  assumes u: "unmarshalInputs options = Inr (pvc, sc)" and P: "Provision p options = (Ok pv, t)"
  shows "if AutoDeleteBucket pvc
         then \<exists>uid. UUIDGenerator_New p = Inr uid \<and>
                lookup (pv_Annotations pv) ''ibm.io/bucket'' = autoBucketNamePrefix @ uid
         else lookup (pv_Annotations pv) ''ibm.io/bucket'' = Bucket pvc"
proof -
  from P [unfolded Provision_eq_Ok] obtain pvc0 sc0 sc' pvc' t0 t1 where
    u': "unmarshalInputs options = Inr (pvc0, sc0)"
    and c0: "checkBucketPolicy p pvc0 = (Ok pvc', t0)"
    and b: "buildVolume options pvc' sc' = Inr pv"
    by blast
  from u u' have "pvc0 = pvc" by simp
  with c0 have c: "checkBucketPolicy p pvc = (Ok pvc', t0)" by simp
  from buildVolume_eq [OF b] have
    "MarshalToMap_pvAnnotations \<lparr>pvc_embedded = pvc', SecretNamespace = pvc_Namespace (PVC options)\<rparr>
       = Inr (pv_Annotations pv)" by simp
  then have "pv_Annotations pv = writeFields (pvcFields (pvc_embedded \<lparr>pvc_embedded = pvc', SecretNamespace = pvc_Namespace (PVC options)\<rparr>) @
            [strField ''ibm.io/secret-namespace'' False (SecretNamespace \<lparr>pvc_embedded = pvc', SecretNamespace = pvc_Namespace (PVC options)\<rparr>)])"
    by (simp add: MarshalToMap_pvAnnotations_def)
  then have bk: "lookup (pv_Annotations pv) ''ibm.io/bucket'' = Bucket pvc'"
    by (simp only: pv_lookups) simp
  from c [unfolded checkBucketPolicy_eq_Ok] show ?thesis
    by (cases "AutoDeleteBucket pvc") (auto simp: bk)
qed

section \<open>The overrides\<close>

lemma overrideEndpoints_eq_Inr:
  "overrideEndpoints pvc sc = Inr sc1 \<longleftrightarrow>
     hasScheme (if Endpoint pvc \<noteq> [] then Endpoint pvc else sc_OSEndpoint sc) \<and>
     hasScheme (if IAMEndpoint pvc \<noteq> [] then IAMEndpoint pvc else sc_IAMEndpoint sc) \<and>
     sc1 = sc\<lparr>sc_OSEndpoint := (if Endpoint pvc \<noteq> [] then Endpoint pvc else sc_OSEndpoint sc),
              sc_OSStorageClass := (if Region pvc \<noteq> [] then Region pvc else sc_OSStorageClass sc),
              sc_IAMEndpoint := (if IAMEndpoint pvc \<noteq> [] then IAMEndpoint pvc else sc_IAMEndpoint sc)\<rparr>"
  by (auto simp: overrideEndpoints_def Let_def)

lemma overrideEndpoints_bad_endpoint:
  "\<not> hasScheme (if Endpoint pvc \<noteq> [] then Endpoint pvc else sc_OSEndpoint sc) \<Longrightarrow>
   overrideEndpoints pvc sc =
     Inl (BadObjectStoreEndpoint (if Endpoint pvc \<noteq> [] then Endpoint pvc else sc_OSEndpoint sc))"
  by (auto simp: overrideEndpoints_def Let_def)

lemma overrideEndpoints_bad_iam:
  "hasScheme (if Endpoint pvc \<noteq> [] then Endpoint pvc else sc_OSEndpoint sc) \<Longrightarrow>
   \<not> hasScheme (if IAMEndpoint pvc \<noteq> [] then IAMEndpoint pvc else sc_IAMEndpoint sc) \<Longrightarrow>
   overrideEndpoints pvc sc =
     Inl (BadIAMEndpoint (if IAMEndpoint pvc \<noteq> [] then IAMEndpoint pvc else sc_IAMEndpoint sc))"
  by (auto simp: overrideEndpoints_def Let_def)

lemma mergeOptions_endpoints_fail:
  "overrideEndpoints pvc sc = Inl e \<Longrightarrow> mergeOptions pvc sc = Inl e"
  by (simp add: mergeOptions_def)

lemma mergeOptions_endpoints_ok:
  "overrideEndpoints pvc sc = Inr sc1 \<Longrightarrow> mergeOptions pvc sc = overrideNumbers pvc sc1"
  by (simp add: mergeOptions_def)

lemma overrideInt_eq_Inr:
  "overrideInt n s d = Inr v \<longleftrightarrow> (if s \<noteq> [] then Atoi s = Some v else v = d)"
  by (auto simp: overrideInt_def split: option.splits)

lemma overrideInt_eq_Inl:
  "overrideInt n s d = Inl e \<longleftrightarrow> s \<noteq> [] \<and> Atoi s = None \<and> e = CannotConvertToInteger n"
  by (auto simp: overrideInt_def split: option.splits)

lemma overrideNumbers_eq_Inr:
  assumes "overrideNumbers pvc sc = Inr sc'"
  shows "(if S3FSFUSERetryCount pvc \<noteq> [] then Atoi (S3FSFUSERetryCount pvc) = Some (sc_S3FSFUSERetryCount sc')
          else sc_S3FSFUSERetryCount sc' = sc_S3FSFUSERetryCount sc) \<and>
         (if ChunkSizeMB pvc \<noteq> [] then Atoi (ChunkSizeMB pvc) = Some (sc_ChunkSizeMB sc')
          else sc_ChunkSizeMB sc' = sc_ChunkSizeMB sc) \<and>
         (if ParallelCount pvc \<noteq> [] then Atoi (ParallelCount pvc) = Some (sc_ParallelCount sc')
          else sc_ParallelCount sc' = sc_ParallelCount sc) \<and>
         (if MultiReqMax pvc \<noteq> [] then Atoi (MultiReqMax pvc) = Some (sc_MultiReqMax sc')
          else sc_MultiReqMax sc' = sc_MultiReqMax sc) \<and>
         (if StatCacheSize pvc \<noteq> [] then Atoi (StatCacheSize pvc) = Some (sc_StatCacheSize sc')
          else sc_StatCacheSize sc' = sc_StatCacheSize sc) \<and>
         sc_OSEndpoint sc' = sc_OSEndpoint sc \<and> sc_OSStorageClass sc' = sc_OSStorageClass sc \<and>
         sc_IAMEndpoint sc' = sc_IAMEndpoint sc \<and> sc_TLSCipherSuite sc' = sc_TLSCipherSuite sc \<and>
         sc_DebugLevel sc' = sc_DebugLevel sc \<and> sc_CurlDebug sc' = sc_CurlDebug sc \<and>
         sc_KernelCache sc' = sc_KernelCache sc"
proof -
  from assms obtain rc cs pc mr scs where
    "overrideInt ''s3fs-fuse-retry-count'' (S3FSFUSERetryCount pvc) (sc_S3FSFUSERetryCount sc) = Inr rc"
    "overrideInt ''chunk-size-mb'' (ChunkSizeMB pvc) (sc_ChunkSizeMB sc) = Inr cs"
    "overrideInt ''parallel-count'' (ParallelCount pvc) (sc_ParallelCount sc) = Inr pc"
    "overrideInt ''multireq-max'' (MultiReqMax pvc) (sc_MultiReqMax sc) = Inr mr"
    "overrideInt ''stat-cache-size'' (StatCacheSize pvc) (sc_StatCacheSize sc) = Inr scs"
    "sc' = sc\<lparr>sc_S3FSFUSERetryCount := rc, sc_ChunkSizeMB := cs, sc_ParallelCount := pc,
                  sc_MultiReqMax := mr, sc_StatCacheSize := scs\<rparr>"
    unfolding overrideNumbers_def by (simp split: sum.splits option.splits)
  then show ?thesis
    unfolding overrideInt_eq_Inr by simp
qed

lemma overrideNumbers_error:
  "overrideNumbers pvc sc = Inl e \<Longrightarrow> \<not> isEndpointError e"
  unfolding overrideNumbers_def
  by (auto simp: overrideInt_eq_Inl checkStatCacheExpireSeconds_def
      split: sum.splits option.splits if_splits)

lemma checkBucketPolicy_error:
  "checkBucketPolicy p pvc = (Err e, t) \<Longrightarrow> \<not> isEndpointError e"
  by (auto simp: checkBucketPolicy_def split: if_splits sum.splits)

lemma checkBucketPolicy_no_panic: "fst (checkBucketPolicy p pvc) \<noteq> Panic"
  by (auto simp: checkBucketPolicy_def split: if_splits sum.splits)

lemma bucketLifecycle_error:
  assumes "bucketLifecycle p pvc sc ns = (Err e, t)"
  shows "\<not> isEndpointError e"
proof (cases "valBucket pvc")
  case False
  with assms show ?thesis by (simp add: bucketLifecycle_no_validation split: if_splits)
next
  case v: True
  obtain r t0 where g: "getCredentials p (SecretName pvc) ns = (r, t0)" by fastforce
  show ?thesis
  proof (cases r)
    case (Inl ce)
    with v g assms show ?thesis by (auto simp: bucketLifecycle_credentials_fail)
  next
    case (Inr c)
    with v g assms show ?thesis
      by (auto simp: bucketLifecycle_credentials_ok [OF v _ refl refl] andThen_def
          createBucketStep_def checkAccessStep_def checkObjectPathStep_def
          split: prod.splits result.splits option.splits if_splits)
  qed
qed

lemma Provision_error_after_endpoints:
  assumes u: "unmarshalInputs options = Inr (pvc, sc)"
    and oe: "overrideEndpoints pvc sc = Inr sc1"
    and P: "fst (Provision p options) = Err e"
  shows "\<not> isEndpointError e"
proof (cases "mergeOptions pvc sc")
  case (Inl e')
  with u P have "e' = e" by (simp add: Provision_merge_fails)
  with Inl oe show ?thesis by (simp add: mergeOptions_endpoints_ok overrideNumbers_error)
next
  case (Inr sc')
  obtain x t0 where c: "checkBucketPolicy p pvc = (x, t0)" by fastforce
  show ?thesis
  proof (cases x)
    case (Ok pvc')
    obtain y t1 where l: "bucketLifecycle p pvc' sc' (pvc_Namespace (PVC options)) = (y, t1)"
      by fastforce
    show ?thesis
    proof (cases y)
      case (Ok z)
      with u Inr c \<open>x = Ok pvc'\<close> l P buildVolume_total [of options pvc' sc'] show ?thesis
        by (auto simp: Provision_after_merge andThen_Ok pure_def)
    next
      case (Err e')
      with u Inr c \<open>x = Ok pvc'\<close> l P have "e' = e"
        by (simp add: Provision_after_merge andThen_Ok andThen_Err)
      with l Err show ?thesis using bucketLifecycle_error by blast
    next
      case Panic
      with u Inr c \<open>x = Ok pvc'\<close> l P show ?thesis
        by (simp add: Provision_after_merge andThen_Ok andThen_Panic)
    qed
  next
    case (Err e')
    with u Inr c P have "e' = e" by (simp add: Provision_after_merge andThen_Err)
    with c Err show ?thesis using checkBucketPolicy_error by blast
  next
    case Panic
    with c checkBucketPolicy_no_panic [of p pvc] show ?thesis by simp
  qed
qed

lemma HasPrefix_append: "HasPrefix (pre @ r) pre"
  by (simp add: HasPrefix_def)


lemma Provision_Ok_options:
  assumes u: "unmarshalInputs options = Inr (pvc, sc)" and P: "Provision p options = (Ok pv, t)"
  shows "\<exists>sc' pvc' t0 flex. mergeOptions pvc sc = Inr sc' \<and>
           checkBucketPolicy p pvc = (Ok pvc', t0) \<and> pv_FlexVolume pv = Some flex \<and>
           Options flex = writeFields (driverFields (driverOptionsOf pvc' sc')) \<and>
           MarshalToMap_pvAnnotations
             \<lparr>pvc_embedded = pvc', SecretNamespace = pvc_Namespace (PVC options)\<rparr> =
               Inr (pv_Annotations pv)"
proof -
  from P [unfolded Provision_eq_Ok] obtain pvc0 sc0 sc' pvc' t0 t1 where
    u': "unmarshalInputs options = Inr (pvc0, sc0)"
    and m0: "mergeOptions pvc0 sc0 = Inr sc'"
    and c0: "checkBucketPolicy p pvc0 = (Ok pvc', t0)"
    and b: "buildVolume options pvc' sc' = Inr pv"
    by blast
  from u u' have "pvc0 = pvc" "sc0 = sc" by simp_all
  with m0 c0 have "mergeOptions pvc sc = Inr sc'" "checkBucketPolicy p pvc = (Ok pvc', t0)"
    by simp_all
  with buildVolume_eq [OF b] show ?thesis by blast
qed

lemma mergeOptions_eq_Inr:
  assumes "mergeOptions pvc sc = Inr sc'"
  shows "sc_OSEndpoint sc' = (if Endpoint pvc \<noteq> [] then Endpoint pvc else sc_OSEndpoint sc) \<and>
         sc_OSStorageClass sc' = (if Region pvc \<noteq> [] then Region pvc else sc_OSStorageClass sc) \<and>
         sc_IAMEndpoint sc' = (if IAMEndpoint pvc \<noteq> [] then IAMEndpoint pvc else sc_IAMEndpoint sc) \<and>
         (if S3FSFUSERetryCount pvc \<noteq> [] then Atoi (S3FSFUSERetryCount pvc) = Some (sc_S3FSFUSERetryCount sc')
          else sc_S3FSFUSERetryCount sc' = sc_S3FSFUSERetryCount sc) \<and>
         (if ChunkSizeMB pvc \<noteq> [] then Atoi (ChunkSizeMB pvc) = Some (sc_ChunkSizeMB sc')
          else sc_ChunkSizeMB sc' = sc_ChunkSizeMB sc) \<and>
         (if ParallelCount pvc \<noteq> [] then Atoi (ParallelCount pvc) = Some (sc_ParallelCount sc')
          else sc_ParallelCount sc' = sc_ParallelCount sc) \<and>
         (if MultiReqMax pvc \<noteq> [] then Atoi (MultiReqMax pvc) = Some (sc_MultiReqMax sc')
          else sc_MultiReqMax sc' = sc_MultiReqMax sc) \<and>
         (if StatCacheSize pvc \<noteq> [] then Atoi (StatCacheSize pvc) = Some (sc_StatCacheSize sc')
          else sc_StatCacheSize sc' = sc_StatCacheSize sc)"
proof -
  from assms obtain sc1 where oe: "overrideEndpoints pvc sc = Inr sc1"
    and on: "overrideNumbers pvc sc1 = Inr sc'"
    by (auto simp: mergeOptions_def split: sum.splits)
  from oe [unfolded overrideEndpoints_eq_Inr] have
    e: "sc_OSEndpoint sc1 = (if Endpoint pvc \<noteq> [] then Endpoint pvc else sc_OSEndpoint sc)"
      "sc_OSStorageClass sc1 = (if Region pvc \<noteq> [] then Region pvc else sc_OSStorageClass sc)"
      "sc_IAMEndpoint sc1 = (if IAMEndpoint pvc \<noteq> [] then IAMEndpoint pvc else sc_IAMEndpoint sc)"
      "sc_S3FSFUSERetryCount sc1 = sc_S3FSFUSERetryCount sc" "sc_ChunkSizeMB sc1 = sc_ChunkSizeMB sc"
      "sc_ParallelCount sc1 = sc_ParallelCount sc" "sc_MultiReqMax sc1 = sc_MultiReqMax sc"
      "sc_StatCacheSize sc1 = sc_StatCacheSize sc"
    by simp_all
  from overrideNumbers_eq_Inr [OF on] show ?thesis
    by (simp only: e) simp
qed

lemma overrideNumbers_first_failure:
  "S3FSFUSERetryCount pvc \<noteq> [] \<and> Atoi (S3FSFUSERetryCount pvc) = None \<Longrightarrow>
     overrideNumbers pvc sc = Inl (CannotConvertToInteger ''s3fs-fuse-retry-count'')"
  "(S3FSFUSERetryCount pvc = [] \<or> Atoi (S3FSFUSERetryCount pvc) \<noteq> None) \<and>
   ChunkSizeMB pvc \<noteq> [] \<and> Atoi (ChunkSizeMB pvc) = None \<Longrightarrow>
     overrideNumbers pvc sc = Inl (CannotConvertToInteger ''chunk-size-mb'')"
  "(S3FSFUSERetryCount pvc = [] \<or> Atoi (S3FSFUSERetryCount pvc) \<noteq> None) \<and>
   (ChunkSizeMB pvc = [] \<or> Atoi (ChunkSizeMB pvc) \<noteq> None) \<and>
   ParallelCount pvc \<noteq> [] \<and> Atoi (ParallelCount pvc) = None \<Longrightarrow>
     overrideNumbers pvc sc = Inl (CannotConvertToInteger ''parallel-count'')"
  "(S3FSFUSERetryCount pvc = [] \<or> Atoi (S3FSFUSERetryCount pvc) \<noteq> None) \<and>
   (ChunkSizeMB pvc = [] \<or> Atoi (ChunkSizeMB pvc) \<noteq> None) \<and>
   (ParallelCount pvc = [] \<or> Atoi (ParallelCount pvc) \<noteq> None) \<and>
   MultiReqMax pvc \<noteq> [] \<and> Atoi (MultiReqMax pvc) = None \<Longrightarrow>
     overrideNumbers pvc sc = Inl (CannotConvertToInteger ''multireq-max'')"
  "(S3FSFUSERetryCount pvc = [] \<or> Atoi (S3FSFUSERetryCount pvc) \<noteq> None) \<and>
   (ChunkSizeMB pvc = [] \<or> Atoi (ChunkSizeMB pvc) \<noteq> None) \<and>
   (ParallelCount pvc = [] \<or> Atoi (ParallelCount pvc) \<noteq> None) \<and>
   (MultiReqMax pvc = [] \<or> Atoi (MultiReqMax pvc) \<noteq> None) \<and>
   StatCacheSize pvc \<noteq> [] \<and> Atoi (StatCacheSize pvc) = None \<Longrightarrow>
     overrideNumbers pvc sc = Inl (CannotConvertToInteger ''stat-cache-size'')"
  unfolding overrideNumbers_def overrideInt_def
  by (auto split: option.splits)



section \<open>Credentials and the lifecycle steps\<close>

lemma getCredentials_api_key:
  assumes "Client_SecretsGet p ns name = Inr secrets" and "secrets SecretAPIKey = Some k"
  shows "getCredentials p name ns =
     (Inr \<lparr>AccessKey = [], SecretKey = [], APIKey = k,
           ServiceInstanceID = (case secrets SecretServiceInstanceID of None \<Rightarrow> [] | Some i \<Rightarrow> i),
           cred_IAMEndpoint = []\<rparr>, [CallSecretsGet ns name])"
  using assms by (simp add: getCredentials_def parseSecret_def split: option.splits)

lemma checkBucketPolicy_no_create:
  "\<not> AutoCreateBucket pvc \<Longrightarrow> checkBucketPolicy p pvc = (Ok pvc', t0) \<Longrightarrow> pvc' = pvc \<and> t0 = []"
  by (auto simp: checkBucketPolicy_eq_Ok split: if_splits)

lemma bucketLifecycle_create_without_instance_id:
  assumes "AutoCreateBucket pvc"
    and "getCredentials p (SecretName pvc) ns = (Inr c, t)"
    and "APIKey c \<noteq> []" and "ServiceInstanceID c = []"
  shows "bucketLifecycle p pvc sc ns =
     (Err APIKeyWithoutServiceInstanceID,
      t @ [CallNewSession (ObjectStorageSession (sc_OSEndpoint sc) (sc_OSStorageClass sc)
             (c\<lparr>cred_IAMEndpoint := sc_IAMEndpoint sc\<rparr>))])"
proof -
  from assms(1) have v: "valBucket pvc" by (simp add: valBucket_def)
  from assms show ?thesis
    by (simp add: bucketLifecycle_credentials_ok [OF v assms(2) refl refl] andThen_Ok
        createBucketStep_def andThen_Err)
qed

lemma bucketLifecycle_validate_only:
  assumes "\<not> AutoCreateBucket pvc" and v: "valBucket pvc"
    and g: "getCredentials p (SecretName pvc) ns = (Inr c, t)"
    and s: "s = ObjectStorageSession (sc_OSEndpoint sc) (sc_OSStorageClass sc)
             (c\<lparr>cred_IAMEndpoint := sc_IAMEndpoint sc\<rparr>)"
  shows "bucketLifecycle p pvc sc ns =
     (case Session_CheckBucketAccess p s (Bucket pvc) of
        Some err \<Rightarrow> (Err (CannotAccessBucket (Bucket pvc) err),
                      t @ [CallNewSession s, CallCheckBucketAccess s (Bucket pvc)])
      | None \<Rightarrow> (fst (checkObjectPathStep p pvc (Some s)),
                   t @ [CallNewSession s, CallCheckBucketAccess s (Bucket pvc)] @
                   snd (checkObjectPathStep p pvc (Some s))))"
  using assms(1) v
  by (simp add: bucketLifecycle_credentials_ok [OF v g refl s] andThen_Ok andThen_Err
      createBucketStep_def checkAccessStep_def split: option.splits)

lemma checkObjectPathStep_not_instance_error:
  "fst (checkObjectPathStep p pvc sess) \<noteq> Err APIKeyWithoutServiceInstanceID"
  by (simp add: checkObjectPathStep_def split: option.splits prod.splits)

lemma checkObjectPathStep_no_path:
  "ObjectPath pvc = [] \<Longrightarrow> checkObjectPathStep p pvc sess = (Ok (), [])"
  by (simp add: checkObjectPathStep_def)


section \<open>Provision followed by Delete\<close>

lemma Delete_eq:
  assumes "pv_FlexVolume pv = Some flex"
    and "UnmarshalMap_pvAnnotations (pv_Annotations pv) = Inr a"
  shows "Delete q pv =
     (if AutoDeleteBucket (pvc_embedded a)
      then (case deleteBucket q a (lookup (Options flex) ''object-store-endpoint'')
                   (lookup (Options flex) ''object-store-storage-class'')
                   (lookup (Options flex) ''iam-endpoint'') of
              (Some err, t) \<Rightarrow> (Err (CannotDeleteBucket err), t)
            | (None, t) \<Rightarrow> (Ok (), t))
      else (Ok (), []))"
  using assms by (simp add: Delete_def Let_def)

lemma Provision_then_Delete:
  assumes u: "unmarshalInputs options = Inr (pvc, sc)" and P: "Provision p options = (Ok pv, t)"
  shows "\<exists>sc' pvc' t0 flex.
     mergeOptions pvc sc = Inr sc' \<and> checkBucketPolicy p pvc = (Ok pvc', t0) \<and>
     UnmarshalMap_pvAnnotations (pv_Annotations pv) =
       Inr \<lparr>pvc_embedded = pvc', SecretNamespace = pvc_Namespace (PVC options)\<rparr> \<and>
     SecretName pvc' = SecretName pvc \<and> AutoDeleteBucket pvc' = AutoDeleteBucket pvc \<and>
     Endpoint pvc' = Endpoint pvc \<and> Region pvc' = Region pvc \<and> IAMEndpoint pvc' = IAMEndpoint pvc \<and>
     pv_FlexVolume pv = Some flex \<and>
     lookup (Options flex) ''object-store-endpoint'' = sc_OSEndpoint sc' \<and>
     lookup (Options flex) ''object-store-storage-class'' = sc_OSStorageClass sc' \<and>
     lookup (Options flex) ''iam-endpoint'' = sc_IAMEndpoint sc' \<and>
     lookup (Options flex) ''bucket'' = Bucket pvc' \<and>
     (\<forall>q. Delete q pv =
        (if AutoDeleteBucket pvc
         then (case deleteBucket q
                      \<lparr>pvc_embedded = pvc', SecretNamespace = pvc_Namespace (PVC options)\<rparr>
                      (sc_OSEndpoint sc') (sc_OSStorageClass sc') (sc_IAMEndpoint sc') of
                 (Some err, t) \<Rightarrow> (Err (CannotDeleteBucket err), t)
               | (None, t) \<Rightarrow> (Ok (), t))
         else (Ok (), [])))"
proof -
  from Provision_Ok_options [OF u P] obtain sc' pvc' t0 flex where
    m: "mergeOptions pvc sc = Inr sc'" and c: "checkBucketPolicy p pvc = (Ok pvc', t0)"
    and f: "pv_FlexVolume pv = Some flex"
    and o: "Options flex = writeFields (driverFields (driverOptionsOf pvc' sc'))"
    and a: "MarshalToMap_pvAnnotations
             \<lparr>pvc_embedded = pvc', SecretNamespace = pvc_Namespace (PVC options)\<rparr> =
               Inr (pv_Annotations pv)"
    by blast
  note fl = checkBucketPolicy_flags [OF c]
  from Unmarshal_Marshal_pvAnnotations [OF a]
  have un: "UnmarshalMap_pvAnnotations (pv_Annotations pv) =
       Inr \<lparr>pvc_embedded = pvc', SecretNamespace = pvc_Namespace (PVC options)\<rparr>" .
  have l: "lookup (Options flex) ''object-store-endpoint'' = sc_OSEndpoint sc'"
     "lookup (Options flex) ''object-store-storage-class'' = sc_OSStorageClass sc'"
     "lookup (Options flex) ''iam-endpoint'' = sc_IAMEndpoint sc'"
     "lookup (Options flex) ''bucket'' = Bucket pvc'"
    unfolding o by (simp_all only: driver_lookups) (simp_all add: driverOptionsOf_def)
  have d: "Delete q pv =
        (if AutoDeleteBucket pvc
         then (case deleteBucket q
                      \<lparr>pvc_embedded = pvc', SecretNamespace = pvc_Namespace (PVC options)\<rparr>
                      (sc_OSEndpoint sc') (sc_OSStorageClass sc') (sc_IAMEndpoint sc') of
                 (Some err, t) \<Rightarrow> (Err (CannotDeleteBucket err), t)
               | (None, t) \<Rightarrow> (Ok (), t))
         else (Ok (), []))" for q
    using fl by (simp add: Delete_eq [OF f un] l)
  from m c un fl f l d show ?thesis by blast
qed

lemma example_policy_generated:
  "checkBucketPolicy exampleEnv (emptyPvc\<lparr>AutoCreateBucket := True, AutoDeleteBucket := True,
      Bucket := [], ObjectPath := [], SecretName := ''s1'', ValidateBucket := ''no''\<rparr>) =
   (Ok (emptyPvc\<lparr>AutoCreateBucket := True, AutoDeleteBucket := True,
      Bucket := ''tmp-s3fs-0001'', ObjectPath := [], SecretName := ''s1'', ValidateBucket := ''no''\<rparr>),
    [CallUUIDNew])"
  by (simp add: checkBucketPolicy_def exampleEnv_def autoBucketNamePrefix_def emptyPvc_def)

lemma example_deleteBucket:
  "deleteBucket exampleEnv
     \<lparr>pvc_embedded = emptyPvc\<lparr>AutoCreateBucket := True, AutoDeleteBucket := True,
        Bucket := ''tmp-s3fs-0001'', ObjectPath := [], SecretName := ''s1'', ValidateBucket := ''no''\<rparr>,
      SecretNamespace = ''default''\<rparr> ep rg iam =
   (None, [CallSecretsGet ''default'' ''s1'',
           CallNewSession (ObjectStorageSession ep rg
             \<lparr>AccessKey = ''AK'', SecretKey = ''SK'', APIKey = [], ServiceInstanceID = [],
              cred_IAMEndpoint = iam\<rparr>),
           CallDeleteBucket (ObjectStorageSession ep rg
             \<lparr>AccessKey = ''AK'', SecretKey = ''SK'', APIKey = [], ServiceInstanceID = [],
              cred_IAMEndpoint = iam\<rparr>) ''tmp-s3fs-0001''])"
  by (simp add: deleteBucket_def getCredentials_def parseSecret_def SecretAPIKey_def
      SecretAccessKey_def SecretSecretKey_def SecretServiceInstanceID_def exampleEnv_def
      emptyPvc_def Let_def)


lemma example_unmarshal_inputs_other:
  "unmarshalInputs (exampleOptions [(''ibm.io/auto-create-bucket'', FormatBool ac),
      (''ibm.io/auto-delete-bucket'', FormatBool ad), (''ibm.io/bucket'', b),
      (''ibm.io/object-path'', op), (''ibm.io/secret-name'', sn), (''ibm.io/validate-bucket'', vb)]
      otherClass) =
   Inr (emptyPvc\<lparr>AutoCreateBucket := ac, AutoDeleteBucket := ad, Bucket := b, ObjectPath := op,
          SecretName := sn, ValidateBucket := vb\<rparr>,
        exampleSc\<lparr>sc_OSEndpoint := ''https://s3.other.example.com''\<rparr>)"
  by (cases ac; cases ad) (simp_all add: example_defs otherClass_def unmarshal_defs FormatBool_def)

lemma example_merge_other:
  "mergeOptions (emptyPvc\<lparr>AutoCreateBucket := ac, AutoDeleteBucket := ad,
    Bucket := b, ObjectPath := op, SecretName := sn, ValidateBucket := vb\<rparr>)
    (exampleSc\<lparr>sc_OSEndpoint := ''https://s3.other.example.com''\<rparr>) =
   Inr (exampleSc\<lparr>sc_OSEndpoint := ''https://s3.other.example.com''\<rparr>)"
  by (simp add: example_defs merge_defs)

lemma example_generated_other:
  "\<exists>pv t. Provision exampleEnv (exampleOptions [(''ibm.io/auto-create-bucket'', FormatBool True),
      (''ibm.io/auto-delete-bucket'', FormatBool True), (''ibm.io/bucket'', []),
      (''ibm.io/object-path'', []), (''ibm.io/secret-name'', ''s1''),
      (''ibm.io/validate-bucket'', ''no'')] otherClass) = (Ok pv, t)"
  unfolding Provision_after_merge [OF example_unmarshal_inputs_other example_merge_other]
  by (simp add: checkBucketPolicy_def emptyPvc_def andThen_Ok lifecycle_defs build_defs
      exampleEnv_def exampleOptions_def exampleSc_def autoBucketNamePrefix_def Let_def)


section \<open>Delete\<close>

text \<open>
  Claim C10. For a persisted volume that has its FlexVolume source and whose annotations
  unmarshal with auto-delete-bucket false, \<^verbatim>\<open>Delete\<close> returns success and calls no
  collaborator (no secret lookup, no session, no bucket deletion). Conversely, whenever
  \<^verbatim>\<open>Delete\<close> calls any collaborator, the annotations unmarshal with auto-delete-bucket
  true.
\<close>

theorem Delete_without_auto_delete:
  "(pv_FlexVolume pv = Some flex \<and> UnmarshalMap_pvAnnotations (pv_Annotations pv) = Inr a \<and>
      \<not> AutoDeleteBucket (pvc_embedded a) \<longrightarrow> Delete p pv = (Ok (), [])) \<and>
   (snd (Delete p pv) \<noteq> [] \<longrightarrow>
      (\<exists>a. UnmarshalMap_pvAnnotations (pv_Annotations pv) = Inr a \<and>
           AutoDeleteBucket (pvc_embedded a)))"
  by (auto simp: Delete_def Let_def split: option.splits sum.splits prod.splits)

theorem Delete_without_auto_delete_witness:
  "Delete exampleEnv
     (exampleVolume [(''ibm.io/auto-delete-bucket'', ''false''), (''ibm.io/bucket'', ''b1''),
        (''ibm.io/secret-name'', ''s1''), (''ibm.io/secret-namespace'', ''default'')]
        [(''object-store-endpoint'', ''https://s3.example.com'')]) = (Ok (), [])"
proof -
  let ?pv = "exampleVolume [(''ibm.io/auto-delete-bucket'', ''false''), (''ibm.io/bucket'', ''b1''),
        (''ibm.io/secret-name'', ''s1''), (''ibm.io/secret-namespace'', ''default'')]
        [(''object-store-endpoint'', ''https://s3.example.com'')]"
  let ?a = "\<lparr>pvc_embedded = emptyPvc\<lparr>Bucket := ''b1'', SecretName := ''s1''\<rparr>,
     SecretNamespace = ''default''\<rparr>"
  have f: "pv_FlexVolume ?pv = Some \<lparr>Driver = driverName, FSType = fsType, SecretRef = ''s1'',
      ReadOnly = False, Options = map_of [(''object-store-endpoint'', ''https://s3.example.com'')]\<rparr>"
    by (simp add: example_defs)
  have u: "UnmarshalMap_pvAnnotations (pv_Annotations ?pv) = Inr ?a"
    by (simp add: example_defs unmarshal_defs)
  from Delete_without_auto_delete [of ?pv _ ?a exampleEnv] f u
  show ?thesis by (simp add: emptyPvc_def)
qed

section \<open>The object path check without a session\<close>

text \<open>
  Claim C4. An input that passes the overrides and the policy rules, with an object
  path, validate-bucket \<^verbatim>\<open>no\<close>, auto-create and auto-delete false and a bucket name:
  no session is opened, and the existence check of the object path is a method
  call on the nil session. \<^verbatim>\<open>Provision\<close> panics, having called no collaborator.
\<close>

theorem object_path_check_on_nil_session:
  assumes "unmarshalInputs options = Inr (pvc, sc)" and "mergeOptions pvc sc = Inr sc'"
    and "ObjectPath pvc \<noteq> []" and "ValidateBucket pvc = ''no''"
    and "\<not> AutoCreateBucket pvc" and "\<not> AutoDeleteBucket pvc" and "Bucket pvc \<noteq> []"
  shows "checkBucketPolicy p pvc = (Ok pvc, []) \<and>
         openSession p pvc sc' (pvc_Namespace (PVC options)) = (Ok (None, None), []) \<and>
         checkObjectPathStep p pvc None = (Panic, []) \<and>
         Provision p options = (Panic, [])"
proof -
  from assms have c: "checkBucketPolicy p pvc = (Ok pvc, [])"
    by (simp add: checkBucketPolicy_def)
  from assms have nv: "\<not> valBucket pvc" by (simp add: valBucket_def)
  from nv have o: "openSession p pvc sc' (pvc_Namespace (PVC options)) = (Ok (None, None), [])"
    by (simp add: openSession_def)
  from assms have s: "checkObjectPathStep p pvc None = (Panic, [])"
    by (simp add: checkObjectPathStep_def)
  from assms c nv have "Provision p options = (Panic, [])"
    by (simp add: Provision_after_merge andThen_Ok bucketLifecycle_no_validation andThen_Panic)
  with c o s show ?thesis by simp
qed

text \<open>Such an input: the bucket \<^verbatim>\<open>b1\<close> with the object path \<^verbatim>\<open>data/\<close>, validation switched off.\<close>

theorem object_path_check_on_nil_session_witness:
  "Provision exampleEnv (exampleOptions [(''ibm.io/auto-create-bucket'', FormatBool False),
        (''ibm.io/auto-delete-bucket'', FormatBool False), (''ibm.io/bucket'', ''b1''),
        (''ibm.io/object-path'', ''data/''), (''ibm.io/secret-name'', ''s1''),
        (''ibm.io/validate-bucket'', ''no'')] exampleClass) = (Panic, [])"
proof -
  let ?pvc = "emptyPvc\<lparr>AutoCreateBucket := False, AutoDeleteBucket := False, Bucket := ''b1'',
      ObjectPath := ''data/'', SecretName := ''s1'', ValidateBucket := ''no''\<rparr>"
  let ?o = "exampleOptions [(''ibm.io/auto-create-bucket'', FormatBool False),
        (''ibm.io/auto-delete-bucket'', FormatBool False), (''ibm.io/bucket'', ''b1''),
        (''ibm.io/object-path'', ''data/''), (''ibm.io/secret-name'', ''s1''),
        (''ibm.io/validate-bucket'', ''no'')] exampleClass"
  have u: "unmarshalInputs ?o = Inr (?pvc, exampleSc)"
    by (rule example_unmarshal_inputs)
  have m: "mergeOptions ?pvc exampleSc = Inr exampleSc"
    by (rule example_merge_empty)
  from object_path_check_on_nil_session [OF u m, of exampleEnv]
  show ?thesis by simp
qed

section \<open>The endpoint schemes\<close>

text \<open>
  Claim C8. After the overrides, an effective object store endpoint without the prefix
  \<^verbatim>\<open>https://\<close> or \<^verbatim>\<open>http://\<close> makes \<^verbatim>\<open>Provision\<close> fail with the error of
  line 170, which names that endpoint; with a good object store endpoint, an effective IAM
  endpoint without such a prefix makes it fail with the error of line 181, which names the
  IAM endpoint. Both are validation errors and no collaborator has been called. When both
  endpoints carry one of the prefixes the check is passed, whatever follows the prefix,
  and \<^verbatim>\<open>Provision\<close> returns no endpoint error.
\<close>

theorem endpoint_scheme_check:
  assumes "unmarshalInputs options = Inr (pvc, sc)"
    and "ep = (if Endpoint pvc \<noteq> [] then Endpoint pvc else sc_OSEndpoint sc)"
    and "iam = (if IAMEndpoint pvc \<noteq> [] then IAMEndpoint pvc else sc_IAMEndpoint sc)"
  shows "(\<not> (HasPrefix ep ''https://'' \<or> HasPrefix ep ''http://'') \<longrightarrow>
            Provision p options = (Err (BadObjectStoreEndpoint ep), []) \<and>
            error_class (BadObjectStoreEndpoint ep) = Some ValidationError) \<and>
         ((HasPrefix ep ''https://'' \<or> HasPrefix ep ''http://'') \<and>
          \<not> (HasPrefix iam ''https://'' \<or> HasPrefix iam ''http://'') \<longrightarrow>
            Provision p options = (Err (BadIAMEndpoint iam), []) \<and>
            error_class (BadIAMEndpoint iam) = Some ValidationError) \<and>
         ((HasPrefix ep ''https://'' \<or> HasPrefix ep ''http://'') \<and>
          (HasPrefix iam ''https://'' \<or> HasPrefix iam ''http://'') \<longrightarrow>
            (\<exists>sc1. overrideEndpoints pvc sc = Inr sc1 \<and> sc_OSEndpoint sc1 = ep \<and>
                   sc_IAMEndpoint sc1 = iam) \<and>
            (\<forall>x. fst (Provision p options) \<noteq> Err (BadObjectStoreEndpoint x) \<and>
                 fst (Provision p options) \<noteq> Err (BadIAMEndpoint x))) \<and>
         HasPrefix (''https://'' @ r) ''https://'' \<and> HasPrefix (''http://'' @ r) ''http://''"
proof -
  have p1: "\<not> (HasPrefix ep ''https://'' \<or> HasPrefix ep ''http://'') \<longrightarrow>
            Provision p options = (Err (BadObjectStoreEndpoint ep), []) \<and>
            error_class (BadObjectStoreEndpoint ep) = Some ValidationError"
  proof
    assume "\<not> (HasPrefix ep ''https://'' \<or> HasPrefix ep ''http://'')"
    then have "\<not> hasScheme ep" by (simp add: hasScheme_def)
    then have "overrideEndpoints pvc sc = Inl (BadObjectStoreEndpoint ep)"
      unfolding assms(2) by (rule overrideEndpoints_bad_endpoint)
    then have "mergeOptions pvc sc = Inl (BadObjectStoreEndpoint ep)"
      by (rule mergeOptions_endpoints_fail)
    with assms(1) show "Provision p options = (Err (BadObjectStoreEndpoint ep), []) \<and>
            error_class (BadObjectStoreEndpoint ep) = Some ValidationError"
      by (simp add: Provision_merge_fails)
  qed
  have p2: "(HasPrefix ep ''https://'' \<or> HasPrefix ep ''http://'') \<and>
          \<not> (HasPrefix iam ''https://'' \<or> HasPrefix iam ''http://'') \<longrightarrow>
            Provision p options = (Err (BadIAMEndpoint iam), []) \<and>
            error_class (BadIAMEndpoint iam) = Some ValidationError"
  proof
    assume "(HasPrefix ep ''https://'' \<or> HasPrefix ep ''http://'') \<and>
          \<not> (HasPrefix iam ''https://'' \<or> HasPrefix iam ''http://'')"
    then have "hasScheme ep" "\<not> hasScheme iam" by (simp_all add: hasScheme_def)
    then have "overrideEndpoints pvc sc = Inl (BadIAMEndpoint iam)"
      unfolding assms(2,3) by (rule overrideEndpoints_bad_iam)
    then have "mergeOptions pvc sc = Inl (BadIAMEndpoint iam)"
      by (rule mergeOptions_endpoints_fail)
    with assms(1) show "Provision p options = (Err (BadIAMEndpoint iam), []) \<and>
            error_class (BadIAMEndpoint iam) = Some ValidationError"
      by (simp add: Provision_merge_fails)
  qed
  have p3: "(HasPrefix ep ''https://'' \<or> HasPrefix ep ''http://'') \<and>
          (HasPrefix iam ''https://'' \<or> HasPrefix iam ''http://'') \<longrightarrow>
            (\<exists>sc1. overrideEndpoints pvc sc = Inr sc1 \<and> sc_OSEndpoint sc1 = ep \<and>
                   sc_IAMEndpoint sc1 = iam) \<and>
            (\<forall>x. fst (Provision p options) \<noteq> Err (BadObjectStoreEndpoint x) \<and>
                 fst (Provision p options) \<noteq> Err (BadIAMEndpoint x))"
  proof
    assume "(HasPrefix ep ''https://'' \<or> HasPrefix ep ''http://'') \<and>
          (HasPrefix iam ''https://'' \<or> HasPrefix iam ''http://'')"
    then have h: "hasScheme ep" "hasScheme iam" by (simp_all add: hasScheme_def)
    define sc1 where "sc1 = sc\<lparr>sc_OSEndpoint := ep,
              sc_OSStorageClass := (if Region pvc \<noteq> [] then Region pvc else sc_OSStorageClass sc),
              sc_IAMEndpoint := iam\<rparr>"
    from h have oe: "overrideEndpoints pvc sc = Inr sc1"
      unfolding overrideEndpoints_eq_Inr sc1_def assms(2,3) by simp
    have f: "sc_OSEndpoint sc1 = ep" "sc_IAMEndpoint sc1 = iam" by (simp_all add: sc1_def)
    have "fst (Provision p options) \<noteq> Err (BadObjectStoreEndpoint x) \<and>
                 fst (Provision p options) \<noteq> Err (BadIAMEndpoint x)" for x
      using Provision_error_after_endpoints [OF assms(1) oe, of p] by fastforce
    with oe f show "(\<exists>sc1. overrideEndpoints pvc sc = Inr sc1 \<and> sc_OSEndpoint sc1 = ep \<and>
                   sc_IAMEndpoint sc1 = iam) \<and>
            (\<forall>x. fst (Provision p options) \<noteq> Err (BadObjectStoreEndpoint x) \<and>
                 fst (Provision p options) \<noteq> Err (BadIAMEndpoint x))"
      by blast
  qed
  have p4: "HasPrefix (''https://'' @ r) ''https://''" by (rule HasPrefix_append)
  have p5: "HasPrefix (''http://'' @ r) ''http://''" by (rule HasPrefix_append)
  show ?thesis
    by (intro conjI) (rule p1, rule p2, rule p3, rule p4, rule p5)
qed

text \<open>A claim that overrides the endpoint with a host name without scheme.\<close>

theorem endpoint_scheme_check_witness:
  "Provision exampleEnv (exampleOptions [(''ibm.io/bucket'', ''b1''),
      (''ibm.io/endpoint'', ''s3.example.com''), (''ibm.io/secret-name'', ''s1'')] exampleClass) =
   (Err (BadObjectStoreEndpoint ''s3.example.com''), [])"
proof -
  let ?o = "exampleOptions [(''ibm.io/bucket'', ''b1''),
      (''ibm.io/endpoint'', ''s3.example.com''), (''ibm.io/secret-name'', ''s1'')] exampleClass"
  let ?pvc = "emptyPvc\<lparr>Bucket := ''b1'', Endpoint := ''s3.example.com'', SecretName := ''s1''\<rparr>"
  have u: "unmarshalInputs ?o = Inr (?pvc, exampleSc)"
    by (simp add: example_defs unmarshal_defs)
  have e: "\<not> (HasPrefix ''s3.example.com'' ''https://'' \<or> HasPrefix ''s3.example.com'' ''http://'')"
    by (simp add: HasPrefix_def)
  from endpoint_scheme_check [OF u refl refl, of exampleEnv] e
  show ?thesis by simp
qed


section \<open>The service instance id\<close>

text \<open>
  Claim C5 (amended). A secret with an API key and no service instance id resolves to
  API key credentials with an empty service instance id, without error. When the API key
  is not empty, a provisioning with auto-create-bucket that gets past the policy rules
  fails with the validation error of line 274 after the secret lookup and the opening of
  the session, and before any bucket is created. Without auto-create-bucket, a validating
  run goes on to the access check and never returns that error; it succeeds when the
  access check succeeds and there is no object path.
\<close>

theorem service_instance_id_checked_on_create:
  assumes "unmarshalInputs options = Inr (pvc, sc)" and "mergeOptions pvc sc = Inr sc'"
    and "checkBucketPolicy p pvc = (Ok pvc', t0)"
    and "ns = pvc_Namespace (PVC options)"
    and "Client_SecretsGet p ns (SecretName pvc) = Inr secrets"
    and "secrets SecretAPIKey = Some k" and "secrets SecretServiceInstanceID = None"
    and "creds = \<lparr>AccessKey = [], SecretKey = [], APIKey = k, ServiceInstanceID = [],
                  cred_IAMEndpoint = []\<rparr>"
    and "s = ObjectStorageSession (sc_OSEndpoint sc') (sc_OSStorageClass sc')
               (creds\<lparr>cred_IAMEndpoint := sc_IAMEndpoint sc'\<rparr>)"
  shows "getCredentials p (SecretName pvc) ns = (Inr creds, [CallSecretsGet ns (SecretName pvc)]) \<and>
         (k \<noteq> [] \<and> AutoCreateBucket pvc \<longrightarrow>
            Provision p options =
              (Err APIKeyWithoutServiceInstanceID,
               t0 @ [CallSecretsGet ns (SecretName pvc), CallNewSession s]) \<and>
            error_class APIKeyWithoutServiceInstanceID = Some ValidationError) \<and>
         (\<not> AutoCreateBucket pvc \<and> valBucket pvc \<longrightarrow>
            fst (Provision p options) \<noteq> Err APIKeyWithoutServiceInstanceID \<and>
            (\<exists>r. snd (Provision p options) =
                   [CallSecretsGet ns (SecretName pvc), CallNewSession s,
                    CallCheckBucketAccess s (Bucket pvc)] @ r) \<and>
            (Session_CheckBucketAccess p s (Bucket pvc) = None \<and> ObjectPath pvc = [] \<longrightarrow>
               (\<exists>pv. Provision p options =
                  (Ok pv, [CallSecretsGet ns (SecretName pvc), CallNewSession s,
                           CallCheckBucketAccess s (Bucket pvc)]))))"
proof -
  have g: "getCredentials p (SecretName pvc) ns = (Inr creds, [CallSecretsGet ns (SecretName pvc)])"
    using getCredentials_api_key [OF assms(5,6)] assms(7,8) by simp
  note fl = checkBucketPolicy_flags [OF assms(3)]
  from fl have sn: "SecretName pvc' = SecretName pvc" by simp
  have P: "Provision p options =
     andThen (Ok pvc', t0) (\<lambda>pvc. andThen (bucketLifecycle p pvc sc' ns)
        (\<lambda>_. pure (buildVolume options pvc sc')))"
    using assms(1-4) by (simp add: Provision_after_merge)
  have p2: "k \<noteq> [] \<and> AutoCreateBucket pvc \<longrightarrow>
            Provision p options =
              (Err APIKeyWithoutServiceInstanceID,
               t0 @ [CallSecretsGet ns (SecretName pvc), CallNewSession s]) \<and>
            error_class APIKeyWithoutServiceInstanceID = Some ValidationError"
  proof
    assume a: "k \<noteq> [] \<and> AutoCreateBucket pvc"
    with fl have ac: "AutoCreateBucket pvc'" by simp
    from g sn have g': "getCredentials p (SecretName pvc') ns =
        (Inr creds, [CallSecretsGet ns (SecretName pvc)])" by simp
    from a assms(8) have k: "APIKey creds \<noteq> []" "ServiceInstanceID creds = []" by simp_all
    from bucketLifecycle_create_without_instance_id [OF ac g' k, of sc'] assms(9)
    have "bucketLifecycle p pvc' sc' ns =
      (Err APIKeyWithoutServiceInstanceID, [CallSecretsGet ns (SecretName pvc), CallNewSession s])"
      by simp
    then show "Provision p options =
              (Err APIKeyWithoutServiceInstanceID,
               t0 @ [CallSecretsGet ns (SecretName pvc), CallNewSession s]) \<and>
            error_class APIKeyWithoutServiceInstanceID = Some ValidationError"
      by (simp add: P andThen_Ok andThen_Err)
  qed
  have p3: "\<not> AutoCreateBucket pvc \<and> valBucket pvc \<longrightarrow>
            fst (Provision p options) \<noteq> Err APIKeyWithoutServiceInstanceID \<and>
            (\<exists>r. snd (Provision p options) =
                   [CallSecretsGet ns (SecretName pvc), CallNewSession s,
                    CallCheckBucketAccess s (Bucket pvc)] @ r) \<and>
            (Session_CheckBucketAccess p s (Bucket pvc) = None \<and> ObjectPath pvc = [] \<longrightarrow>
               (\<exists>pv. Provision p options =
                  (Ok pv, [CallSecretsGet ns (SecretName pvc), CallNewSession s,
                           CallCheckBucketAccess s (Bucket pvc)])))"
  proof
    assume a: "\<not> AutoCreateBucket pvc \<and> valBucket pvc"
    with checkBucketPolicy_no_create [OF _ assms(3)] have e: "pvc' = pvc" "t0 = []" by simp_all
    from a have na: "\<not> AutoCreateBucket pvc" and v: "valBucket pvc" by simp_all
    note bl = bucketLifecycle_validate_only [OF na v g assms(9), of ]
    obtain pv where b: "buildVolume options pvc sc' = Inr pv"
      using buildVolume_total by blast
    show "fst (Provision p options) \<noteq> Err APIKeyWithoutServiceInstanceID \<and>
            (\<exists>r. snd (Provision p options) =
                   [CallSecretsGet ns (SecretName pvc), CallNewSession s,
                    CallCheckBucketAccess s (Bucket pvc)] @ r) \<and>
            (Session_CheckBucketAccess p s (Bucket pvc) = None \<and> ObjectPath pvc = [] \<longrightarrow>
               (\<exists>pv. Provision p options =
                  (Ok pv, [CallSecretsGet ns (SecretName pvc), CallNewSession s,
                           CallCheckBucketAccess s (Bucket pvc)])))"
    proof (cases "Session_CheckBucketAccess p s (Bucket pvc)")
      case (Some err)
      with bl show ?thesis by (simp add: P e andThen_Ok andThen_Err)
    next
      case None
      obtain x t1 where c: "checkObjectPathStep p pvc (Some s) = (x, t1)" by fastforce
      with checkObjectPathStep_not_instance_error [of p pvc "Some s"]
      have nx: "x \<noteq> Err APIKeyWithoutServiceInstanceID" by simp
      from c checkObjectPathStep_no_path [of pvc p "Some s"]
      have np: "ObjectPath pvc = [] \<Longrightarrow> x = Ok () \<and> t1 = []" by simp
      from None bl c have l: "bucketLifecycle p pvc sc' ns =
          (x, [CallSecretsGet ns (SecretName pvc), CallNewSession s,
               CallCheckBucketAccess s (Bucket pvc)] @ t1)" by simp
      show ?thesis
      proof (cases x)
        case (Ok u)
        with l b np show ?thesis by (auto simp: P e andThen_Ok pure_def)
      next
        case (Err er)
        with l nx np show ?thesis by (auto simp: P e andThen_Ok andThen_Err)
      next
        case Panic
        with l np show ?thesis by (auto simp: P e andThen_Ok andThen_Panic)
      qed
    qed
  qed
  show ?thesis
    by (intro conjI) (rule g, rule p2, rule p3)
qed


text \<open>A secret \<^verbatim>\<open>api-key: KEY\<close> without service instance id, and auto-create-bucket.\<close>

theorem service_instance_id_checked_on_create_witness:
  "Provision (secretEnv [(''api-key'', ''KEY'')])
     (exampleOptions [(''ibm.io/auto-create-bucket'', FormatBool True),
        (''ibm.io/auto-delete-bucket'', FormatBool False), (''ibm.io/bucket'', ''b1''),
        (''ibm.io/object-path'', []), (''ibm.io/secret-name'', ''s1''),
        (''ibm.io/validate-bucket'', [])] exampleClass) =
   (Err APIKeyWithoutServiceInstanceID,
    [CallSecretsGet ''default'' ''s1'',
     CallNewSession (ObjectStorageSession ''https://s3.example.com'' ''standard''
       \<lparr>AccessKey = [], SecretKey = [], APIKey = ''KEY'', ServiceInstanceID = [],
        cred_IAMEndpoint = ''https://iam.example.com''\<rparr>)])"
proof -
  let ?p = "secretEnv [(''api-key'', ''KEY'')]"
  let ?o = "exampleOptions [(''ibm.io/auto-create-bucket'', FormatBool True),
        (''ibm.io/auto-delete-bucket'', FormatBool False), (''ibm.io/bucket'', ''b1''),
        (''ibm.io/object-path'', []), (''ibm.io/secret-name'', ''s1''),
        (''ibm.io/validate-bucket'', [])] exampleClass"
  let ?pvc = "emptyPvc\<lparr>AutoCreateBucket := True, AutoDeleteBucket := False, Bucket := ''b1'',
      ObjectPath := [], SecretName := ''s1'', ValidateBucket := []\<rparr>"
  have u: "unmarshalInputs ?o = Inr (?pvc, exampleSc)"
    by (rule example_unmarshal_inputs)
  have m: "mergeOptions ?pvc exampleSc = Inr exampleSc"
    by (rule example_merge_empty)
  have c: "checkBucketPolicy ?p ?pvc = (Ok ?pvc, [])"
    by (simp add: checkBucketPolicy_def)
  have g: "Client_SecretsGet ?p (pvc_Namespace (PVC ?o)) (SecretName ?pvc) =
      Inr (map_of [(''api-key'', ''KEY'')])"
    by (simp add: secretEnv_def)
  have k: "map_of [(''api-key'', ''KEY'')] SecretAPIKey = Some ''KEY''"
    "map_of [(''api-key'', ''KEY'')] SecretServiceInstanceID = None"
    by (simp_all add: SecretAPIKey_def SecretServiceInstanceID_def)
  from service_instance_id_checked_on_create [OF u m c refl g k refl refl]
  show ?thesis by (simp add: exampleOptions_def exampleSc_def)
qed

text \<open>
  A secret whose API key field is present and empty, without service instance id, and
  auto-create-bucket: no validation error, the bucket is created.
\<close>

theorem empty_api_key_counterexample:
  "map_of [(''api-key'', [])] SecretAPIKey = Some [] \<and>
   map_of [(''api-key'', [])] SecretServiceInstanceID = None \<and>
   fst (Provision (secretEnv [(''api-key'', [])])
     (exampleOptions [(''ibm.io/auto-create-bucket'', FormatBool True),
        (''ibm.io/auto-delete-bucket'', FormatBool False), (''ibm.io/bucket'', ''b1''),
        (''ibm.io/object-path'', []), (''ibm.io/secret-name'', ''s1''),
        (''ibm.io/validate-bucket'', [])] exampleClass)) \<noteq> Err APIKeyWithoutServiceInstanceID \<and>
   snd (Provision (secretEnv [(''api-key'', [])])
     (exampleOptions [(''ibm.io/auto-create-bucket'', FormatBool True),
        (''ibm.io/auto-delete-bucket'', FormatBool False), (''ibm.io/bucket'', ''b1''),
        (''ibm.io/object-path'', []), (''ibm.io/secret-name'', ''s1''),
        (''ibm.io/validate-bucket'', [])] exampleClass)) =
    [CallSecretsGet ''default'' ''s1'',
     CallNewSession (ObjectStorageSession ''https://s3.example.com'' ''standard''
       \<lparr>AccessKey = [], SecretKey = [], APIKey = [], ServiceInstanceID = [],
        cred_IAMEndpoint = ''https://iam.example.com''\<rparr>),
     CallCreateBucket (ObjectStorageSession ''https://s3.example.com'' ''standard''
       \<lparr>AccessKey = [], SecretKey = [], APIKey = [], ServiceInstanceID = [],
        cred_IAMEndpoint = ''https://iam.example.com''\<rparr>) ''b1'',
     CallCheckBucketAccess (ObjectStorageSession ''https://s3.example.com'' ''standard''
       \<lparr>AccessKey = [], SecretKey = [], APIKey = [], ServiceInstanceID = [],
        cred_IAMEndpoint = ''https://iam.example.com''\<rparr>) ''b1'']"
  unfolding Provision_after_merge [OF example_unmarshal_inputs example_merge_empty]
  by (simp add: checkBucketPolicy_def emptyPvc_def andThen_Ok lifecycle_defs build_defs
      secretEnv_def exampleEnv_def exampleOptions_def exampleSc_def Let_def)


section \<open>What Delete reads of the mount options\<close>

text \<open>
  Claim C2 (amended). \<^verbatim>\<open>Delete\<close> reads exactly three entries of the mount options
  back: \<^verbatim>\<open>object-store-endpoint\<close>, \<^verbatim>\<open>object-store-storage-class\<close> and
  \<^verbatim>\<open>iam-endpoint\<close> (lines 361-363). Two persisted volumes with the same annotations
  whose mount options agree on these three entries are deleted in the same way: the same
  calls, the same result. With auto-delete-bucket false the mount options have no
  influence at all.
\<close>

theorem Delete_reads_three_options:
  "(pv_Annotations pv1 = pv_Annotations pv2 \<and>
    pv_FlexVolume pv1 = Some flex1 \<and> pv_FlexVolume pv2 = Some flex2 \<and>
    lookup (Options flex1) ''object-store-endpoint'' =
      lookup (Options flex2) ''object-store-endpoint'' \<and>
    lookup (Options flex1) ''object-store-storage-class'' =
      lookup (Options flex2) ''object-store-storage-class'' \<and>
    lookup (Options flex1) ''iam-endpoint'' = lookup (Options flex2) ''iam-endpoint'' \<longrightarrow>
      Delete p pv1 = Delete p pv2) \<and>
   (pv_Annotations pv1 = pv_Annotations pv2 \<and>
    pv_FlexVolume pv1 = Some flex1 \<and> pv_FlexVolume pv2 = Some flex2 \<and>
    UnmarshalMap_pvAnnotations (pv_Annotations pv1) = Inr a \<and>
    \<not> AutoDeleteBucket (pvc_embedded a) \<longrightarrow>
      Delete p pv1 = Delete p pv2)"
  by (auto simp: Delete_def Let_def)

text \<open>
  Two volumes with the same annotations, auto-delete-bucket true, whose mount options
  name the same endpoint and differ in an entry that \<^verbatim>\<open>Delete\<close> does not read.
\<close>

theorem Delete_reads_three_options_witness:
  "Delete exampleEnv
     (exampleVolume [(''ibm.io/auto-delete-bucket'', ''true''), (''ibm.io/bucket'', ''b1''),
        (''ibm.io/secret-name'', ''s1''), (''ibm.io/secret-namespace'', ''default'')]
        [(''object-store-endpoint'', ''https://s3.example.com''), (''chunk-size-mb'', ''16'')]) =
   Delete exampleEnv
     (exampleVolume [(''ibm.io/auto-delete-bucket'', ''true''), (''ibm.io/bucket'', ''b1''),
        (''ibm.io/secret-name'', ''s1''), (''ibm.io/secret-namespace'', ''default'')]
        [(''object-store-endpoint'', ''https://s3.example.com''), (''chunk-size-mb'', ''52'')])"
proof -
  let ?ann = "[(''ibm.io/auto-delete-bucket'', ''true''), (''ibm.io/bucket'', ''b1''),
        (''ibm.io/secret-name'', ''s1''), (''ibm.io/secret-namespace'', ''default'')]"
  let ?o1 = "[(''object-store-endpoint'', ''https://s3.example.com''), (''chunk-size-mb'', ''16'')]"
  let ?o2 = "[(''object-store-endpoint'', ''https://s3.example.com''), (''chunk-size-mb'', ''52'')]"
  let ?f1 = "\<lparr>Driver = driverName, FSType = fsType, SecretRef = ''s1'',
                ReadOnly = False, Options = map_of ?o1\<rparr>"
  let ?f2 = "\<lparr>Driver = driverName, FSType = fsType, SecretRef = ''s1'',
                ReadOnly = False, Options = map_of ?o2\<rparr>"
  have a: "pv_Annotations (exampleVolume ?ann ?o1) = pv_Annotations (exampleVolume ?ann ?o2)"
    by (simp add: exampleVolume_def)
  have f: "pv_FlexVolume (exampleVolume ?ann ?o1) = Some ?f1"
    "pv_FlexVolume (exampleVolume ?ann ?o2) = Some ?f2"
    by (simp_all add: exampleVolume_def)
  have l: "lookup (Options ?f1) ''object-store-endpoint'' = lookup (Options ?f2) ''object-store-endpoint''"
    "lookup (Options ?f1) ''object-store-storage-class'' = lookup (Options ?f2) ''object-store-storage-class''"
    "lookup (Options ?f1) ''iam-endpoint'' = lookup (Options ?f2) ''iam-endpoint''"
    by (simp_all add: lookup_def)
  from Delete_reads_three_options [of "exampleVolume ?ann ?o1" "exampleVolume ?ann ?o2" ?f1 ?f2
      exampleEnv] a f l
  show ?thesis by blast
qed

text \<open>
  Two volumes with the same annotations, auto-delete-bucket true, whose mount options
  name different endpoints: the sessions opened by \<^verbatim>\<open>Delete\<close> differ.
\<close>

theorem Delete_depends_on_options_counterexample:
  "pv_Annotations
     (exampleVolume [(''ibm.io/auto-delete-bucket'', ''true''), (''ibm.io/bucket'', ''b1''),
        (''ibm.io/secret-name'', ''s1''), (''ibm.io/secret-namespace'', ''default'')]
        [(''object-store-endpoint'', ''https://s3.example.com'')]) =
   pv_Annotations
     (exampleVolume [(''ibm.io/auto-delete-bucket'', ''true''), (''ibm.io/bucket'', ''b1''),
        (''ibm.io/secret-name'', ''s1''), (''ibm.io/secret-namespace'', ''default'')]
        [(''object-store-endpoint'', ''https://s3.other.example.com'')]) \<and>
   Delete exampleEnv
     (exampleVolume [(''ibm.io/auto-delete-bucket'', ''true''), (''ibm.io/bucket'', ''b1''),
        (''ibm.io/secret-name'', ''s1''), (''ibm.io/secret-namespace'', ''default'')]
        [(''object-store-endpoint'', ''https://s3.example.com'')]) =
     (Ok (),
      [CallSecretsGet ''default'' ''s1'',
       CallNewSession (ObjectStorageSession ''https://s3.example.com'' []
         \<lparr>AccessKey = ''AK'', SecretKey = ''SK'', APIKey = [], ServiceInstanceID = [],
          cred_IAMEndpoint = []\<rparr>),
       CallDeleteBucket (ObjectStorageSession ''https://s3.example.com'' []
         \<lparr>AccessKey = ''AK'', SecretKey = ''SK'', APIKey = [], ServiceInstanceID = [],
          cred_IAMEndpoint = []\<rparr>) ''b1'']) \<and>
   Delete exampleEnv
     (exampleVolume [(''ibm.io/auto-delete-bucket'', ''true''), (''ibm.io/bucket'', ''b1''),
        (''ibm.io/secret-name'', ''s1''), (''ibm.io/secret-namespace'', ''default'')]
        [(''object-store-endpoint'', ''https://s3.other.example.com'')]) =
     (Ok (),
      [CallSecretsGet ''default'' ''s1'',
       CallNewSession (ObjectStorageSession ''https://s3.other.example.com'' []
         \<lparr>AccessKey = ''AK'', SecretKey = ''SK'', APIKey = [], ServiceInstanceID = [],
          cred_IAMEndpoint = []\<rparr>),
       CallDeleteBucket (ObjectStorageSession ''https://s3.other.example.com'' []
         \<lparr>AccessKey = ''AK'', SecretKey = ''SK'', APIKey = [], ServiceInstanceID = [],
          cred_IAMEndpoint = []\<rparr>) ''b1''])"
  by (simp add: exampleVolume_def exampleEnv_def Delete_def deleteBucket_def getCredentials_def
      parseSecret_def SecretAPIKey_def SecretAccessKey_def SecretSecretKey_def
      SecretServiceInstanceID_def unmarshal_defs Let_def)


section \<open>The volume as the descriptor for teardown\<close>

text \<open>
  Claim C1 (amended). The volume returned by a successful \<^verbatim>\<open>Provision\<close> lets
  \<^verbatim>\<open>Delete\<close> recover what it uses: the annotations unmarshal to the claim annotations
  as \<^verbatim>\<open>Provision\<close> left them (secret name, auto-delete flag, the bucket name, generated
  or given, and the claim's own endpoint, region and IAM endpoint) together with the
  namespace of the claim; the endpoint, storage class and IAM endpoint that \<^verbatim>\<open>Delete\<close>
  hands to the session are not taken from the annotations but from the mount options of
  the volume, where they are the merged values. So \<^verbatim>\<open>Delete\<close> on that volume is the
  bucket deletion with exactly these values if auto-delete-bucket is set, and nothing
  otherwise.
\<close>

theorem volume_suffices_for_teardown:
  assumes "unmarshalInputs options = Inr (pvc, sc)" and "Provision p options = (Ok pv, t)"
  shows "\<exists>sc' pvc' t0 flex.
     mergeOptions pvc sc = Inr sc' \<and> checkBucketPolicy p pvc = (Ok pvc', t0) \<and>
     UnmarshalMap_pvAnnotations (pv_Annotations pv) =
       Inr \<lparr>pvc_embedded = pvc', SecretNamespace = pvc_Namespace (PVC options)\<rparr> \<and>
     SecretName pvc' = SecretName pvc \<and> AutoDeleteBucket pvc' = AutoDeleteBucket pvc \<and>
     Endpoint pvc' = Endpoint pvc \<and> Region pvc' = Region pvc \<and> IAMEndpoint pvc' = IAMEndpoint pvc \<and>
     pv_FlexVolume pv = Some flex \<and>
     lookup (Options flex) ''object-store-endpoint'' = sc_OSEndpoint sc' \<and>
     lookup (Options flex) ''object-store-storage-class'' = sc_OSStorageClass sc' \<and>
     lookup (Options flex) ''iam-endpoint'' = sc_IAMEndpoint sc' \<and>
     lookup (Options flex) ''bucket'' = Bucket pvc' \<and>
     (\<forall>q. Delete q pv =
        (if AutoDeleteBucket pvc
         then (case deleteBucket q
                      \<lparr>pvc_embedded = pvc', SecretNamespace = pvc_Namespace (PVC options)\<rparr>
                      (sc_OSEndpoint sc') (sc_OSStorageClass sc') (sc_IAMEndpoint sc') of
                 (Some err, t) \<Rightarrow> (Err (CannotDeleteBucket err), t)
               | (None, t) \<Rightarrow> (Ok (), t))
         else (Ok (), [])))"
  using assms by (rule Provision_then_Delete)

text \<open>
  The scenario of the spec: the volume provisioned with auto-create and auto-delete is
  torn down with the generated bucket name and the endpoints of the storage class.
\<close>

theorem volume_suffices_for_teardown_witness:
  "(case Provision exampleEnv
      (exampleOptions [(''ibm.io/auto-create-bucket'', FormatBool True),
        (''ibm.io/auto-delete-bucket'', FormatBool True), (''ibm.io/bucket'', []),
        (''ibm.io/object-path'', []), (''ibm.io/secret-name'', ''s1''),
        (''ibm.io/validate-bucket'', ''no'')] exampleClass) of
      (Ok pv, t) \<Rightarrow>
        Delete exampleEnv pv =
          (Ok (),
           [CallSecretsGet ''default'' ''s1'',
            CallNewSession (ObjectStorageSession ''https://s3.example.com'' ''standard''
              \<lparr>AccessKey = ''AK'', SecretKey = ''SK'', APIKey = [], ServiceInstanceID = [],
               cred_IAMEndpoint = ''https://iam.example.com''\<rparr>),
            CallDeleteBucket (ObjectStorageSession ''https://s3.example.com'' ''standard''
              \<lparr>AccessKey = ''AK'', SecretKey = ''SK'', APIKey = [], ServiceInstanceID = [],
               cred_IAMEndpoint = ''https://iam.example.com''\<rparr>) ''tmp-s3fs-0001''])
    | _ \<Rightarrow> False)"
proof -
  let ?o = "exampleOptions [(''ibm.io/auto-create-bucket'', FormatBool True),
        (''ibm.io/auto-delete-bucket'', FormatBool True), (''ibm.io/bucket'', []),
        (''ibm.io/object-path'', []), (''ibm.io/secret-name'', ''s1''),
        (''ibm.io/validate-bucket'', ''no'')] exampleClass"
  let ?pvc = "emptyPvc\<lparr>AutoCreateBucket := True, AutoDeleteBucket := True, Bucket := [],
      ObjectPath := [], SecretName := ''s1'', ValidateBucket := ''no''\<rparr>"
  have u: "unmarshalInputs ?o = Inr (?pvc, exampleSc)"
    by (rule example_unmarshal_inputs)
  from example_generated obtain pv t where P: "Provision exampleEnv ?o = (Ok pv, t)" by blast
  from volume_suffices_for_teardown [OF u P] obtain sc' pvc' t0 where
    m: "mergeOptions ?pvc exampleSc = Inr sc'"
    and c: "checkBucketPolicy exampleEnv ?pvc = (Ok pvc', t0)"
    and d: "Delete exampleEnv pv =
       (case deleteBucket exampleEnv \<lparr>pvc_embedded = pvc', SecretNamespace = pvc_Namespace (PVC ?o)\<rparr>
               (sc_OSEndpoint sc') (sc_OSStorageClass sc') (sc_IAMEndpoint sc') of
          (Some err, t) \<Rightarrow> (Err (CannotDeleteBucket err), t)
        | (None, t) \<Rightarrow> (Ok (), t))"
    by auto
  from m have sc': "sc' = exampleSc" by (simp add: example_merge_empty)
  from c have pvc': "pvc' = emptyPvc\<lparr>AutoCreateBucket := True, AutoDeleteBucket := True,
      Bucket := ''tmp-s3fs-0001'', ObjectPath := [], SecretName := ''s1'', ValidateBucket := ''no''\<rparr>"
    by (simp add: example_policy_generated)
  have ns: "pvc_Namespace (PVC ?o) = ''default''" by (simp add: exampleOptions_def)
  have "Delete exampleEnv pv =
          (Ok (),
           [CallSecretsGet ''default'' ''s1'',
            CallNewSession (ObjectStorageSession ''https://s3.example.com'' ''standard''
              \<lparr>AccessKey = ''AK'', SecretKey = ''SK'', APIKey = [], ServiceInstanceID = [],
               cred_IAMEndpoint = ''https://iam.example.com''\<rparr>),
            CallDeleteBucket (ObjectStorageSession ''https://s3.example.com'' ''standard''
              \<lparr>AccessKey = ''AK'', SecretKey = ''SK'', APIKey = [], ServiceInstanceID = [],
               cred_IAMEndpoint = ''https://iam.example.com''\<rparr>) ''tmp-s3fs-0001''])"
    unfolding d sc' pvc' ns example_deleteBucket by (simp add: exampleSc_def)
  with P show ?thesis by simp
qed


text \<open>
  The same claim provisioned under two storage classes that differ in the object store
  endpoint: the annotations of the two volumes are the same, and they carry no endpoint;
  yet \<^verbatim>\<open>Delete\<close> opens its session at the endpoint of the class, a different one for
  each volume.
\<close>

theorem annotations_do_not_fix_endpoint_counterexample:
  "(case Provision exampleEnv
      (exampleOptions [(''ibm.io/auto-create-bucket'', FormatBool True),
        (''ibm.io/auto-delete-bucket'', FormatBool True), (''ibm.io/bucket'', []),
        (''ibm.io/object-path'', []), (''ibm.io/secret-name'', ''s1''),
        (''ibm.io/validate-bucket'', ''no'')] exampleClass) of
      (Ok pvA, tA) \<Rightarrow>
        (case Provision exampleEnv
           (exampleOptions [(''ibm.io/auto-create-bucket'', FormatBool True),
             (''ibm.io/auto-delete-bucket'', FormatBool True), (''ibm.io/bucket'', []),
             (''ibm.io/object-path'', []), (''ibm.io/secret-name'', ''s1''),
             (''ibm.io/validate-bucket'', ''no'')] otherClass) of
           (Ok pvB, tB) \<Rightarrow>
             pv_Annotations pvA = pv_Annotations pvB \<and>
             lookup (pv_Annotations pvA) ''ibm.io/endpoint'' = [] \<and>
             snd (Delete exampleEnv pvA) =
               [CallSecretsGet ''default'' ''s1'',
                CallNewSession (ObjectStorageSession ''https://s3.example.com'' ''standard''
                  \<lparr>AccessKey = ''AK'', SecretKey = ''SK'', APIKey = [], ServiceInstanceID = [],
                   cred_IAMEndpoint = ''https://iam.example.com''\<rparr>),
                CallDeleteBucket (ObjectStorageSession ''https://s3.example.com'' ''standard''
                  \<lparr>AccessKey = ''AK'', SecretKey = ''SK'', APIKey = [], ServiceInstanceID = [],
                   cred_IAMEndpoint = ''https://iam.example.com''\<rparr>) ''tmp-s3fs-0001''] \<and>
             snd (Delete exampleEnv pvB) =
               [CallSecretsGet ''default'' ''s1'',
                CallNewSession (ObjectStorageSession ''https://s3.other.example.com'' ''standard''
                  \<lparr>AccessKey = ''AK'', SecretKey = ''SK'', APIKey = [], ServiceInstanceID = [],
                   cred_IAMEndpoint = ''https://iam.example.com''\<rparr>),
                CallDeleteBucket (ObjectStorageSession ''https://s3.other.example.com'' ''standard''
                  \<lparr>AccessKey = ''AK'', SecretKey = ''SK'', APIKey = [], ServiceInstanceID = [],
                   cred_IAMEndpoint = ''https://iam.example.com''\<rparr>) ''tmp-s3fs-0001'']
         | _ \<Rightarrow> False)
    | _ \<Rightarrow> False)"
proof -
  let ?ann = "[(''ibm.io/auto-create-bucket'', FormatBool True),
        (''ibm.io/auto-delete-bucket'', FormatBool True), (''ibm.io/bucket'', []),
        (''ibm.io/object-path'', []), (''ibm.io/secret-name'', ''s1''),
        (''ibm.io/validate-bucket'', ''no'')]"
  let ?oA = "exampleOptions ?ann exampleClass"
  let ?oB = "exampleOptions ?ann otherClass"
  let ?pvc = "emptyPvc\<lparr>AutoCreateBucket := True, AutoDeleteBucket := True, Bucket := [],
      ObjectPath := [], SecretName := ''s1'', ValidateBucket := ''no''\<rparr>"
  let ?pvc' = "emptyPvc\<lparr>AutoCreateBucket := True, AutoDeleteBucket := True,
      Bucket := ''tmp-s3fs-0001'', ObjectPath := [], SecretName := ''s1'', ValidateBucket := ''no''\<rparr>"
  let ?scB = "exampleSc\<lparr>sc_OSEndpoint := ''https://s3.other.example.com''\<rparr>"
  have uA: "unmarshalInputs ?oA = Inr (?pvc, exampleSc)"
    by (rule example_unmarshal_inputs)
  have uB: "unmarshalInputs ?oB = Inr (?pvc, ?scB)"
    by (rule example_unmarshal_inputs_other)
  have ns: "pvc_Namespace (PVC ?oA) = ''default''" "pvc_Namespace (PVC ?oB) = ''default''"
    by (simp_all add: exampleOptions_def)
  from example_generated obtain pvA tA where PA: "Provision exampleEnv ?oA = (Ok pvA, tA)"
    by blast
  from example_generated_other obtain pvB tB where PB: "Provision exampleEnv ?oB = (Ok pvB, tB)"
    by blast
  from Provision_Ok_options [OF uA PA] have
    mA: "MarshalToMap_pvAnnotations \<lparr>pvc_embedded = ?pvc', SecretNamespace = ''default''\<rparr> =
          Inr (pv_Annotations pvA)"
    by (auto simp: example_policy_generated ns)
  from Provision_Ok_options [OF uB PB] have
    mB: "MarshalToMap_pvAnnotations \<lparr>pvc_embedded = ?pvc', SecretNamespace = ''default''\<rparr> =
          Inr (pv_Annotations pvB)"
    by (auto simp: example_policy_generated ns)
  from mA mB have 1: "pv_Annotations pvA = pv_Annotations pvB" by simp
  from mA have "pv_Annotations pvA = writeFields (pvcFields (pvc_embedded
       \<lparr>pvc_embedded = ?pvc', SecretNamespace = ''default''\<rparr>) @
       [strField ''ibm.io/secret-namespace'' False (SecretNamespace
          \<lparr>pvc_embedded = ?pvc', SecretNamespace = ''default''\<rparr>)])"
    by (simp add: MarshalToMap_pvAnnotations_def)
  then have 2: "lookup (pv_Annotations pvA) ''ibm.io/endpoint'' = []"
    by (simp only: pv_lookups) (simp add: emptyPvc_def)
  from Provision_then_Delete [OF uA PA] have
    "Delete exampleEnv pvA =
       (case deleteBucket exampleEnv \<lparr>pvc_embedded = ?pvc', SecretNamespace = ''default''\<rparr>
               (sc_OSEndpoint exampleSc) (sc_OSStorageClass exampleSc) (sc_IAMEndpoint exampleSc) of
          (Some err, t) \<Rightarrow> (Err (CannotDeleteBucket err), t)
        | (None, t) \<Rightarrow> (Ok (), t))"
    by (auto simp: example_policy_generated example_merge_empty ns)
  then have 3: "snd (Delete exampleEnv pvA) =
               [CallSecretsGet ''default'' ''s1'',
                CallNewSession (ObjectStorageSession ''https://s3.example.com'' ''standard''
                  \<lparr>AccessKey = ''AK'', SecretKey = ''SK'', APIKey = [], ServiceInstanceID = [],
                   cred_IAMEndpoint = ''https://iam.example.com''\<rparr>),
                CallDeleteBucket (ObjectStorageSession ''https://s3.example.com'' ''standard''
                  \<lparr>AccessKey = ''AK'', SecretKey = ''SK'', APIKey = [], ServiceInstanceID = [],
                   cred_IAMEndpoint = ''https://iam.example.com''\<rparr>) ''tmp-s3fs-0001'']"
    by (simp add: example_deleteBucket exampleSc_def)
  from Provision_then_Delete [OF uB PB] have
    "Delete exampleEnv pvB =
       (case deleteBucket exampleEnv \<lparr>pvc_embedded = ?pvc', SecretNamespace = ''default''\<rparr>
               (sc_OSEndpoint ?scB) (sc_OSStorageClass ?scB) (sc_IAMEndpoint ?scB) of
          (Some err, t) \<Rightarrow> (Err (CannotDeleteBucket err), t)
        | (None, t) \<Rightarrow> (Ok (), t))"
    by (auto simp: example_policy_generated example_merge_other ns)
  then have 4: "snd (Delete exampleEnv pvB) =
               [CallSecretsGet ''default'' ''s1'',
                CallNewSession (ObjectStorageSession ''https://s3.other.example.com'' ''standard''
                  \<lparr>AccessKey = ''AK'', SecretKey = ''SK'', APIKey = [], ServiceInstanceID = [],
                   cred_IAMEndpoint = ''https://iam.example.com''\<rparr>),
                CallDeleteBucket (ObjectStorageSession ''https://s3.other.example.com'' ''standard''
                  \<lparr>AccessKey = ''AK'', SecretKey = ''SK'', APIKey = [], ServiceInstanceID = [],
                   cred_IAMEndpoint = ''https://iam.example.com''\<rparr>) ''tmp-s3fs-0001'']"
    by (simp add: example_deleteBucket exampleSc_def)
  from 1 2 3 4 show ?thesis
    by (simp only: PA PB prod.case result.case)
qed

section \<open>The policy rules\<close>

text \<open>
  Claim C7 (amended). Take an input whose claim annotations unmarshal. If it violates one
  of the four rules (object path with auto-create; auto-delete without auto-create;
  auto-delete with a bucket name; no auto-delete and no bucket name), \<^verbatim>\<open>Provision\<close>
  returns an error and has called no collaborator at all. The rules are checked after the
  class parameters are unmarshalled and after the overrides of lines 157-230: when these
  succeed, the error is the one of the first violated rule, in the order of the source,
  and each of the four is a validation error; when they fail, it is their error that is
  returned.
\<close>

theorem policy_violation_fails_before_any_call:
  assumes "UnmarshalMap_pvcAnnotations (pvc_Annotations (PVC options)) = Inr pvc"
  shows "((AutoCreateBucket pvc \<and> ObjectPath pvc \<noteq> []) \<or>
          (AutoDeleteBucket pvc \<and> \<not> AutoCreateBucket pvc) \<or>
          (AutoDeleteBucket pvc \<and> Bucket pvc \<noteq> []) \<or>
          (\<not> AutoDeleteBucket pvc \<and> Bucket pvc = []) \<longrightarrow>
            (\<exists>e. Provision p options = (Err e, []))) \<and>
         (\<forall>sc sc'. UnmarshalMap_scOptions (Parameters options) = Inr sc \<and>
            mergeOptions pvc sc = Inr sc' \<longrightarrow>
            (AutoCreateBucket pvc \<and> ObjectPath pvc \<noteq> [] \<longrightarrow>
               Provision p options = (Err (ObjectPathWithAutoCreate (ObjectPath pvc)), []) \<and>
               error_class (ObjectPathWithAutoCreate (ObjectPath pvc)) = Some ValidationError) \<and>
            (\<not> (AutoCreateBucket pvc \<and> ObjectPath pvc \<noteq> []) \<and>
             AutoDeleteBucket pvc \<and> \<not> AutoCreateBucket pvc \<longrightarrow>
               Provision p options = (Err AutoCreateMustBeEnabled, []) \<and>
               error_class AutoCreateMustBeEnabled = Some ValidationError) \<and>
            (\<not> (AutoCreateBucket pvc \<and> ObjectPath pvc \<noteq> []) \<and>
             AutoDeleteBucket pvc \<and> AutoCreateBucket pvc \<and> Bucket pvc \<noteq> [] \<longrightarrow>
               Provision p options = (Err (BucketSetWithAutoDelete (Bucket pvc)), []) \<and>
               error_class (BucketSetWithAutoDelete (Bucket pvc)) = Some ValidationError) \<and>
            (\<not> (AutoCreateBucket pvc \<and> ObjectPath pvc \<noteq> []) \<and>
             \<not> AutoDeleteBucket pvc \<and> Bucket pvc = [] \<longrightarrow>
               Provision p options = (Err BucketNameNotSpecified, []) \<and>
               error_class BucketNameNotSpecified = Some ValidationError))"
proof -
  have viol: "(AutoCreateBucket pvc \<and> ObjectPath pvc \<noteq> []) \<or>
          (AutoDeleteBucket pvc \<and> \<not> AutoCreateBucket pvc) \<or>
          (AutoDeleteBucket pvc \<and> Bucket pvc \<noteq> []) \<or>
          (\<not> AutoDeleteBucket pvc \<and> Bucket pvc = []) \<Longrightarrow>
          \<exists>e. checkBucketPolicy p pvc = (Err e, [])"
    by (auto simp: checkBucketPolicy_def)
  have first: "(AutoCreateBucket pvc \<and> ObjectPath pvc \<noteq> []) \<or>
          (AutoDeleteBucket pvc \<and> \<not> AutoCreateBucket pvc) \<or>
          (AutoDeleteBucket pvc \<and> Bucket pvc \<noteq> []) \<or>
          (\<not> AutoDeleteBucket pvc \<and> Bucket pvc = []) \<Longrightarrow>
          \<exists>e. Provision p options = (Err e, [])"
    using viol Provision_early_error [OF assms] by blast
  have second: "Provision p options = (Err e, [])"
    if "UnmarshalMap_scOptions (Parameters options) = Inr sc" "mergeOptions pvc sc = Inr sc'"
       "checkBucketPolicy p pvc = (Err e, [])" for sc sc' e
  proof -
    from assms that(1) have "unmarshalInputs options = Inr (pvc, sc)"
      by (simp add: unmarshalInputs_def)
    with that(2,3) show ?thesis by (simp add: Provision_policy_fails)
  qed
  show ?thesis
    using first by (auto intro!: second simp: checkBucketPolicy_def)
qed

text \<open>
  The scenario of the spec: auto-create together with the object path \<^verbatim>\<open>data/\<close> fails
  with the first rule's error before any call.
\<close>

theorem policy_violation_witness:
  "Provision exampleEnv
     (exampleOptions [(''ibm.io/auto-create-bucket'', ''true''), (''ibm.io/object-path'', ''data/'')]
        exampleClass) = (Err (ObjectPathWithAutoCreate ''data/''), [])"
proof -
  let ?options = "exampleOptions [(''ibm.io/auto-create-bucket'', ''true''),
     (''ibm.io/object-path'', ''data/'')] exampleClass"
  let ?pvc = "emptyPvc\<lparr>AutoCreateBucket := True, AutoDeleteBucket := False, Bucket := [],
     ObjectPath := ''data/'', SecretName := [], ValidateBucket := []\<rparr>"
  have u: "UnmarshalMap_pvcAnnotations (pvc_Annotations (PVC ?options)) = Inr ?pvc"
    by (simp add: example_defs unmarshal_defs)
  have s: "UnmarshalMap_scOptions (Parameters ?options) = Inr exampleSc"
    by (simp add: exampleOptions_def example_unmarshal_sc)
  from policy_violation_fails_before_any_call [OF u, of exampleEnv] s example_merge_empty
  show ?thesis by (simp add: emptyPvc_def)
qed

text \<open>
  Auto-create together with an object path, and a chunk size that is not a number: the
  overrides run first (lines 195-198), and the error returned is their conversion error,
  a parse error, not the validation error of the first rule.
\<close>

theorem policy_violation_after_parse_error_counterexample:
  "UnmarshalMap_pvcAnnotations (pvc_Annotations (PVC
     (exampleOptions [(''ibm.io/auto-create-bucket'', ''true''), (''ibm.io/object-path'', ''data/''),
        (''ibm.io/chunk-size-mb'', ''abc'')] exampleClass))) =
     Inr (emptyPvc\<lparr>AutoCreateBucket := True, ObjectPath := ''data/'', ChunkSizeMB := ''abc''\<rparr>) \<and>
   AutoCreateBucket (emptyPvc\<lparr>AutoCreateBucket := True, ObjectPath := ''data/'',
      ChunkSizeMB := ''abc''\<rparr>) \<and>
   ObjectPath (emptyPvc\<lparr>AutoCreateBucket := True, ObjectPath := ''data/'',
      ChunkSizeMB := ''abc''\<rparr>) \<noteq> [] \<and>
   Provision exampleEnv
     (exampleOptions [(''ibm.io/auto-create-bucket'', ''true''), (''ibm.io/object-path'', ''data/''),
        (''ibm.io/chunk-size-mb'', ''abc'')] exampleClass) =
     (Err (CannotConvertToInteger ''chunk-size-mb''), []) \<and>
   error_class (CannotConvertToInteger ''chunk-size-mb'') = Some ConfigParseError"
proof -
  let ?o = "exampleOptions [(''ibm.io/auto-create-bucket'', ''true''),
     (''ibm.io/object-path'', ''data/''), (''ibm.io/chunk-size-mb'', ''abc'')] exampleClass"
  let ?pvc = "emptyPvc\<lparr>AutoCreateBucket := True, ObjectPath := ''data/'', ChunkSizeMB := ''abc''\<rparr>"
  have a: "UnmarshalMap_pvcAnnotations (pvc_Annotations (PVC ?o)) = Inr ?pvc"
    by (simp add: example_defs unmarshal_defs)
  have u: "unmarshalInputs ?o = Inr (?pvc, exampleSc)"
    by (simp add: example_defs unmarshal_defs)
  have m: "mergeOptions ?pvc exampleSc = Inl (CannotConvertToInteger ''chunk-size-mb'')"
    by (simp add: example_defs merge_defs)
  from Provision_merge_fails [OF u m, of exampleEnv] a show ?thesis
    by simp
qed

section \<open>The access check decision\<close>








section \<open>The generated bucket name\<close>

lemma Provision_Ok_policy:
  assumes u: "unmarshalInputs options = Inr (pvc, sc)" and P: "Provision p options = (Ok pv, t)"
  shows "if AutoDeleteBucket pvc then AutoCreateBucket pvc \<and> Bucket pvc = []
         else Bucket pvc \<noteq> []"
proof -
  from Provision_Ok_options [OF u P] obtain pvc' t0 where
    c: "checkBucketPolicy p pvc = (Ok pvc', t0)" by blast
  from c [unfolded checkBucketPolicy_eq_Ok] show ?thesis
    by (simp split: if_splits)
qed

text \<open>
  Claim C3. No name is ever generated unless auto-create-bucket is true and the claim
  gives no bucket name. On the inputs that pass the four policy rules (and whose
  overrides succeed, so that the rules are reached) the generator is called exactly when
  auto-create-bucket is true and no bucket name is given; the name then assigned is
  \<^verbatim>\<open>tmp-s3fs-\<close> followed by the token of the generator, and in every other case the
  bucket name of the claim is kept. The volume of a successful run carries the name
  accordingly.
\<close>

theorem bucket_name_generation:
  assumes "unmarshalInputs options = Inr (pvc, sc)"
  shows "(CallUUIDNew \<in> set (snd (Provision p options)) \<longrightarrow>
            AutoCreateBucket pvc \<and> Bucket pvc = []) \<and>
         (mergeOptions pvc sc = Inr sc' \<and>
          \<not> (AutoCreateBucket pvc \<and> ObjectPath pvc \<noteq> []) \<and>
          \<not> (AutoDeleteBucket pvc \<and> \<not> AutoCreateBucket pvc) \<and>
          \<not> (AutoDeleteBucket pvc \<and> Bucket pvc \<noteq> []) \<and>
          \<not> (\<not> AutoDeleteBucket pvc \<and> Bucket pvc = []) \<longrightarrow>
            (CallUUIDNew \<in> set (snd (Provision p options))) =
            (AutoCreateBucket pvc \<and> Bucket pvc = [])) \<and>
         (\<not> (AutoCreateBucket pvc \<and> ObjectPath pvc \<noteq> []) \<and>
          \<not> (AutoDeleteBucket pvc \<and> \<not> AutoCreateBucket pvc) \<and>
          \<not> (AutoDeleteBucket pvc \<and> Bucket pvc \<noteq> []) \<and>
          \<not> (\<not> AutoDeleteBucket pvc \<and> Bucket pvc = []) \<and>
          AutoCreateBucket pvc \<and> Bucket pvc = [] \<and> UUIDGenerator_New p = Inr uid \<longrightarrow>
            checkBucketPolicy p pvc =
              (Ok (pvc\<lparr>Bucket := ''tmp-s3fs-'' @ uid\<rparr>), [CallUUIDNew])) \<and>
         (\<not> (AutoCreateBucket pvc \<and> ObjectPath pvc \<noteq> []) \<and>
          \<not> (AutoDeleteBucket pvc \<and> \<not> AutoCreateBucket pvc) \<and>
          \<not> (AutoDeleteBucket pvc \<and> Bucket pvc \<noteq> []) \<and>
          \<not> (\<not> AutoDeleteBucket pvc \<and> Bucket pvc = []) \<and>
          \<not> (AutoCreateBucket pvc \<and> Bucket pvc = []) \<longrightarrow>
            checkBucketPolicy p pvc = (Ok pvc, [])) \<and>
         (Provision p options = (Ok pv, t) \<and> AutoCreateBucket pvc \<and> Bucket pvc = [] \<longrightarrow>
            (\<exists>uid. UUIDGenerator_New p = Inr uid \<and>
                   lookup (pv_Annotations pv) ''ibm.io/bucket'' = ''tmp-s3fs-'' @ uid)) \<and>
         (Provision p options = (Ok pv, t) \<and> \<not> (AutoCreateBucket pvc \<and> Bucket pvc = []) \<longrightarrow>
            lookup (pv_Annotations pv) ''ibm.io/bucket'' = Bucket pvc)"
proof -
  have p1: "CallUUIDNew \<in> set (snd (Provision p options)) \<longrightarrow>
            AutoCreateBucket pvc \<and> Bucket pvc = []"
    using Provision_uuid_only_if [OF assms] by blast
  have p2: "mergeOptions pvc sc = Inr sc' \<and>
          \<not> (AutoCreateBucket pvc \<and> ObjectPath pvc \<noteq> []) \<and>
          \<not> (AutoDeleteBucket pvc \<and> \<not> AutoCreateBucket pvc) \<and>
          \<not> (AutoDeleteBucket pvc \<and> Bucket pvc \<noteq> []) \<and>
          \<not> (\<not> AutoDeleteBucket pvc \<and> Bucket pvc = []) \<longrightarrow>
            (CallUUIDNew \<in> set (snd (Provision p options))) =
            (AutoCreateBucket pvc \<and> Bucket pvc = [])"
  proof
    assume a: "mergeOptions pvc sc = Inr sc' \<and>
          \<not> (AutoCreateBucket pvc \<and> ObjectPath pvc \<noteq> []) \<and>
          \<not> (AutoDeleteBucket pvc \<and> \<not> AutoCreateBucket pvc) \<and>
          \<not> (AutoDeleteBucket pvc \<and> Bucket pvc \<noteq> []) \<and>
          \<not> (\<not> AutoDeleteBucket pvc \<and> Bucket pvc = [])"
    then have m: "mergeOptions pvc sc = Inr sc'" by simp
    from a show "(CallUUIDNew \<in> set (snd (Provision p options))) =
            (AutoCreateBucket pvc \<and> Bucket pvc = [])"
      unfolding Provision_uuid_iff [OF assms m] by blast
  qed
  have p3: "\<not> (AutoCreateBucket pvc \<and> ObjectPath pvc \<noteq> []) \<and>
          \<not> (AutoDeleteBucket pvc \<and> \<not> AutoCreateBucket pvc) \<and>
          \<not> (AutoDeleteBucket pvc \<and> Bucket pvc \<noteq> []) \<and>
          \<not> (\<not> AutoDeleteBucket pvc \<and> Bucket pvc = []) \<and>
          AutoCreateBucket pvc \<and> Bucket pvc = [] \<and> UUIDGenerator_New p = Inr uid \<longrightarrow>
            checkBucketPolicy p pvc =
              (Ok (pvc\<lparr>Bucket := ''tmp-s3fs-'' @ uid\<rparr>), [CallUUIDNew])"
    by (auto simp: checkBucketPolicy_def autoBucketNamePrefix_def)
  have p4: "\<not> (AutoCreateBucket pvc \<and> ObjectPath pvc \<noteq> []) \<and>
          \<not> (AutoDeleteBucket pvc \<and> \<not> AutoCreateBucket pvc) \<and>
          \<not> (AutoDeleteBucket pvc \<and> Bucket pvc \<noteq> []) \<and>
          \<not> (\<not> AutoDeleteBucket pvc \<and> Bucket pvc = []) \<and>
          \<not> (AutoCreateBucket pvc \<and> Bucket pvc = []) \<longrightarrow>
            checkBucketPolicy p pvc = (Ok pvc, [])"
    by (auto simp: checkBucketPolicy_def)
  have p5: "Provision p options = (Ok pv, t) \<and> AutoCreateBucket pvc \<and> Bucket pvc = [] \<longrightarrow>
            (\<exists>uid. UUIDGenerator_New p = Inr uid \<and>
                   lookup (pv_Annotations pv) ''ibm.io/bucket'' = ''tmp-s3fs-'' @ uid)"
  proof
    assume a: "Provision p options = (Ok pv, t) \<and> AutoCreateBucket pvc \<and> Bucket pvc = []"
    then have P: "Provision p options = (Ok pv, t)" by simp
    from Provision_Ok_policy [OF assms P] a have ad: "AutoDeleteBucket pvc"
      by (simp split: if_splits)
    from Provision_Ok_bucket [OF assms P] ad
    show "\<exists>uid. UUIDGenerator_New p = Inr uid \<and>
                   lookup (pv_Annotations pv) ''ibm.io/bucket'' = ''tmp-s3fs-'' @ uid"
      by (simp add: autoBucketNamePrefix_def)
  qed
  have p6: "Provision p options = (Ok pv, t) \<and> \<not> (AutoCreateBucket pvc \<and> Bucket pvc = []) \<longrightarrow>
            lookup (pv_Annotations pv) ''ibm.io/bucket'' = Bucket pvc"
  proof
    assume a: "Provision p options = (Ok pv, t) \<and> \<not> (AutoCreateBucket pvc \<and> Bucket pvc = [])"
    then have P: "Provision p options = (Ok pv, t)" by simp
    from Provision_Ok_policy [OF assms P] a have ad: "\<not> AutoDeleteBucket pvc"
      by (auto split: if_splits)
    from Provision_Ok_bucket [OF assms P] ad
    show "lookup (pv_Annotations pv) ''ibm.io/bucket'' = Bucket pvc"
      by simp
  qed
  show ?thesis
    by (intro conjI) (rule p1, rule p2, rule p3, rule p4, rule p5, rule p6)
qed

text \<open>
  The scenario of the spec: auto-create and auto-delete without a bucket name. The
  input passes the four rules, the generator is called and the volume carries the
  generated name.
\<close>

theorem bucket_name_generation_witness:
  "CallUUIDNew \<in> set (snd (Provision exampleEnv
      (exampleOptions [(''ibm.io/auto-create-bucket'', FormatBool True),
        (''ibm.io/auto-delete-bucket'', FormatBool True), (''ibm.io/bucket'', []),
        (''ibm.io/object-path'', []), (''ibm.io/secret-name'', ''s1''),
        (''ibm.io/validate-bucket'', ''no'')] exampleClass))) \<and>
   (\<exists>pv t. Provision exampleEnv
      (exampleOptions [(''ibm.io/auto-create-bucket'', FormatBool True),
        (''ibm.io/auto-delete-bucket'', FormatBool True), (''ibm.io/bucket'', []),
        (''ibm.io/object-path'', []), (''ibm.io/secret-name'', ''s1''),
        (''ibm.io/validate-bucket'', ''no'')] exampleClass) = (Ok pv, t) \<and>
      lookup (pv_Annotations pv) ''ibm.io/bucket'' = ''tmp-s3fs-0001'')"
proof -
  let ?o = "exampleOptions [(''ibm.io/auto-create-bucket'', FormatBool True),
        (''ibm.io/auto-delete-bucket'', FormatBool True), (''ibm.io/bucket'', []),
        (''ibm.io/object-path'', []), (''ibm.io/secret-name'', ''s1''),
        (''ibm.io/validate-bucket'', ''no'')] exampleClass"
  let ?pvc = "emptyPvc\<lparr>AutoCreateBucket := True, AutoDeleteBucket := True, Bucket := [],
      ObjectPath := [], SecretName := ''s1'', ValidateBucket := ''no''\<rparr>"
  have u: "unmarshalInputs ?o = Inr (?pvc, exampleSc)"
    by (rule example_unmarshal_inputs)
  have m: "mergeOptions ?pvc exampleSc = Inr exampleSc"
    by (rule example_merge_empty)
  from example_generated obtain pv t where P: "Provision exampleEnv ?o = (Ok pv, t)" by blast
  note th = bucket_name_generation [OF u, of exampleEnv exampleSc _ pv t]
  from th m have 1: "CallUUIDNew \<in> set (snd (Provision exampleEnv ?o))"
    by (simp add: emptyPvc_def)
  from th P have "\<exists>uid. UUIDGenerator_New exampleEnv = Inr uid \<and>
      lookup (pv_Annotations pv) ''ibm.io/bucket'' = ''tmp-s3fs-'' @ uid"
    by (simp add: emptyPvc_def)
  then have 2: "lookup (pv_Annotations pv) ''ibm.io/bucket'' = ''tmp-s3fs-0001''"
    by (auto simp: exampleEnv_def)
  from 1 2 P show ?thesis by blast
qed

section \<open>Override precedence\<close>

lemma overrideEndpoints_error:
  "overrideEndpoints pvc sc = Inl e \<Longrightarrow> isEndpointError e"
  by (auto simp: overrideEndpoints_def Let_def split: if_splits)

lemma overrideNumbers_bad_number:
  assumes "(S3FSFUSERetryCount pvc \<noteq> [] \<and> Atoi (S3FSFUSERetryCount pvc) = None) \<or>
           (ChunkSizeMB pvc \<noteq> [] \<and> Atoi (ChunkSizeMB pvc) = None) \<or>
           (ParallelCount pvc \<noteq> [] \<and> Atoi (ParallelCount pvc) = None) \<or>
           (MultiReqMax pvc \<noteq> [] \<and> Atoi (MultiReqMax pvc) = None) \<or>
           (StatCacheSize pvc \<noteq> [] \<and> Atoi (StatCacheSize pvc) = None)"
  shows "\<exists>n. overrideNumbers pvc sc = Inl (CannotConvertToInteger n)"
  using assms overrideNumbers_first_failure [of pvc sc] by blast

lemma Provision_bad_number:
  assumes u: "unmarshalInputs options = Inr (pvc, sc)"
    and b: "(S3FSFUSERetryCount pvc \<noteq> [] \<and> Atoi (S3FSFUSERetryCount pvc) = None) \<or>
           (ChunkSizeMB pvc \<noteq> [] \<and> Atoi (ChunkSizeMB pvc) = None) \<or>
           (ParallelCount pvc \<noteq> [] \<and> Atoi (ParallelCount pvc) = None) \<or>
           (MultiReqMax pvc \<noteq> [] \<and> Atoi (MultiReqMax pvc) = None) \<or>
           (StatCacheSize pvc \<noteq> [] \<and> Atoi (StatCacheSize pvc) = None)"
  shows "\<exists>e. Provision p options = (Err e, []) \<and>
             (isEndpointError e \<or> (\<exists>n. e = CannotConvertToInteger n))"
proof (cases "overrideEndpoints pvc sc")
  case (Inl e)
  then have "mergeOptions pvc sc = Inl e" by (rule mergeOptions_endpoints_fail)
  with u have "Provision p options = (Err e, [])" by (simp add: Provision_merge_fails)
  with overrideEndpoints_error [OF Inl] show ?thesis by blast
next
  case (Inr sc1)
  from overrideNumbers_bad_number [OF b, of sc1] obtain n where
    "overrideNumbers pvc sc1 = Inl (CannotConvertToInteger n)" by blast
  with Inr have "mergeOptions pvc sc = Inl (CannotConvertToInteger n)"
    by (simp add: mergeOptions_endpoints_ok)
  with u have "Provision p options = (Err (CannotConvertToInteger n), [])"
    by (simp add: Provision_merge_fails)
  then show ?thesis by blast
qed

text \<open>
  Claim C9 (amended). When the overrides of lines 157-220 succeed, every overridable
  option carries the claim's value if the claim gives a non-empty one (the numeric ones
  as parsed by \<^verbatim>\<open>strconv.Atoi\<close>) and the class's value otherwise. A numeric
  annotation that is non-empty and not an integer makes \<^verbatim>\<open>Provision\<close> fail before
  any collaborator is called: with the error of an endpoint check if an endpoint lacks
  its scheme (these checks run first), and otherwise with the conversion error, a parse
  error, that names the first such annotation in the order of the source (retry count,
  chunk size, parallel count, multireq max, stat cache size). The volume of a successful
  run hands the merged values to the mount driver.
\<close>

theorem override_precedence:
  assumes "unmarshalInputs options = Inr (pvc, sc)"
  shows "(mergeOptions pvc sc = Inr sc' \<longrightarrow>
           sc_OSEndpoint sc' = (if Endpoint pvc \<noteq> [] then Endpoint pvc else sc_OSEndpoint sc) \<and>
           sc_OSStorageClass sc' = (if Region pvc \<noteq> [] then Region pvc else sc_OSStorageClass sc) \<and>
           sc_IAMEndpoint sc' = (if IAMEndpoint pvc \<noteq> [] then IAMEndpoint pvc else sc_IAMEndpoint sc) \<and>
           (if S3FSFUSERetryCount pvc \<noteq> []
            then Atoi (S3FSFUSERetryCount pvc) = Some (sc_S3FSFUSERetryCount sc')
            else sc_S3FSFUSERetryCount sc' = sc_S3FSFUSERetryCount sc) \<and>
           (if ChunkSizeMB pvc \<noteq> [] then Atoi (ChunkSizeMB pvc) = Some (sc_ChunkSizeMB sc')
            else sc_ChunkSizeMB sc' = sc_ChunkSizeMB sc) \<and>
           (if ParallelCount pvc \<noteq> [] then Atoi (ParallelCount pvc) = Some (sc_ParallelCount sc')
            else sc_ParallelCount sc' = sc_ParallelCount sc) \<and>
           (if MultiReqMax pvc \<noteq> [] then Atoi (MultiReqMax pvc) = Some (sc_MultiReqMax sc')
            else sc_MultiReqMax sc' = sc_MultiReqMax sc) \<and>
           (if StatCacheSize pvc \<noteq> [] then Atoi (StatCacheSize pvc) = Some (sc_StatCacheSize sc')
            else sc_StatCacheSize sc' = sc_StatCacheSize sc)) \<and>
         (overrideEndpoints pvc sc = Inr sc1 \<longrightarrow>
           (S3FSFUSERetryCount pvc \<noteq> [] \<and> Atoi (S3FSFUSERetryCount pvc) = None \<longrightarrow>
              Provision p options = (Err (CannotConvertToInteger ''s3fs-fuse-retry-count''), [])) \<and>
           ((S3FSFUSERetryCount pvc = [] \<or> Atoi (S3FSFUSERetryCount pvc) \<noteq> None) \<and>
            ChunkSizeMB pvc \<noteq> [] \<and> Atoi (ChunkSizeMB pvc) = None \<longrightarrow>
              Provision p options = (Err (CannotConvertToInteger ''chunk-size-mb''), [])) \<and>
           ((S3FSFUSERetryCount pvc = [] \<or> Atoi (S3FSFUSERetryCount pvc) \<noteq> None) \<and>
            (ChunkSizeMB pvc = [] \<or> Atoi (ChunkSizeMB pvc) \<noteq> None) \<and>
            ParallelCount pvc \<noteq> [] \<and> Atoi (ParallelCount pvc) = None \<longrightarrow>
              Provision p options = (Err (CannotConvertToInteger ''parallel-count''), [])) \<and>
           ((S3FSFUSERetryCount pvc = [] \<or> Atoi (S3FSFUSERetryCount pvc) \<noteq> None) \<and>
            (ChunkSizeMB pvc = [] \<or> Atoi (ChunkSizeMB pvc) \<noteq> None) \<and>
            (ParallelCount pvc = [] \<or> Atoi (ParallelCount pvc) \<noteq> None) \<and>
            MultiReqMax pvc \<noteq> [] \<and> Atoi (MultiReqMax pvc) = None \<longrightarrow>
              Provision p options = (Err (CannotConvertToInteger ''multireq-max''), [])) \<and>
           ((S3FSFUSERetryCount pvc = [] \<or> Atoi (S3FSFUSERetryCount pvc) \<noteq> None) \<and>
            (ChunkSizeMB pvc = [] \<or> Atoi (ChunkSizeMB pvc) \<noteq> None) \<and>
            (ParallelCount pvc = [] \<or> Atoi (ParallelCount pvc) \<noteq> None) \<and>
            (MultiReqMax pvc = [] \<or> Atoi (MultiReqMax pvc) \<noteq> None) \<and>
            StatCacheSize pvc \<noteq> [] \<and> Atoi (StatCacheSize pvc) = None \<longrightarrow>
              Provision p options = (Err (CannotConvertToInteger ''stat-cache-size''), []))) \<and>
         ((S3FSFUSERetryCount pvc \<noteq> [] \<and> Atoi (S3FSFUSERetryCount pvc) = None) \<or>
          (ChunkSizeMB pvc \<noteq> [] \<and> Atoi (ChunkSizeMB pvc) = None) \<or>
          (ParallelCount pvc \<noteq> [] \<and> Atoi (ParallelCount pvc) = None) \<or>
          (MultiReqMax pvc \<noteq> [] \<and> Atoi (MultiReqMax pvc) = None) \<or>
          (StatCacheSize pvc \<noteq> [] \<and> Atoi (StatCacheSize pvc) = None) \<longrightarrow>
            (\<exists>e. Provision p options = (Err e, []) \<and>
                 (isEndpointError e \<or> (\<exists>n. e = CannotConvertToInteger n)))) \<and>
         error_class (CannotConvertToInteger name) = Some ConfigParseError \<and>
         (Provision p options = (Ok pv, t) \<longrightarrow>
           (\<exists>sc'' flex. mergeOptions pvc sc = Inr sc'' \<and> pv_FlexVolume pv = Some flex \<and>
              lookup (Options flex) ''object-store-endpoint'' = sc_OSEndpoint sc'' \<and>
              lookup (Options flex) ''object-store-storage-class'' = sc_OSStorageClass sc'' \<and>
              lookup (Options flex) ''iam-endpoint'' = sc_IAMEndpoint sc'' \<and>
              lookup (Options flex) ''s3fs-fuse-retry-count'' = Itoa (sc_S3FSFUSERetryCount sc'') \<and>
              lookup (Options flex) ''chunk-size-mb'' = Itoa (sc_ChunkSizeMB sc'') \<and>
              lookup (Options flex) ''parallel-count'' = Itoa (sc_ParallelCount sc'') \<and>
              lookup (Options flex) ''multireq-max'' = Itoa (sc_MultiReqMax sc'') \<and>
              lookup (Options flex) ''stat-cache-size'' = Itoa (sc_StatCacheSize sc'')))"
proof -
  have p1: "mergeOptions pvc sc = Inr sc' \<longrightarrow>
           sc_OSEndpoint sc' = (if Endpoint pvc \<noteq> [] then Endpoint pvc else sc_OSEndpoint sc) \<and>
           sc_OSStorageClass sc' = (if Region pvc \<noteq> [] then Region pvc else sc_OSStorageClass sc) \<and>
           sc_IAMEndpoint sc' = (if IAMEndpoint pvc \<noteq> [] then IAMEndpoint pvc else sc_IAMEndpoint sc) \<and>
           (if S3FSFUSERetryCount pvc \<noteq> []
            then Atoi (S3FSFUSERetryCount pvc) = Some (sc_S3FSFUSERetryCount sc')
            else sc_S3FSFUSERetryCount sc' = sc_S3FSFUSERetryCount sc) \<and>
           (if ChunkSizeMB pvc \<noteq> [] then Atoi (ChunkSizeMB pvc) = Some (sc_ChunkSizeMB sc')
            else sc_ChunkSizeMB sc' = sc_ChunkSizeMB sc) \<and>
           (if ParallelCount pvc \<noteq> [] then Atoi (ParallelCount pvc) = Some (sc_ParallelCount sc')
            else sc_ParallelCount sc' = sc_ParallelCount sc) \<and>
           (if MultiReqMax pvc \<noteq> [] then Atoi (MultiReqMax pvc) = Some (sc_MultiReqMax sc')
            else sc_MultiReqMax sc' = sc_MultiReqMax sc) \<and>
           (if StatCacheSize pvc \<noteq> [] then Atoi (StatCacheSize pvc) = Some (sc_StatCacheSize sc')
            else sc_StatCacheSize sc' = sc_StatCacheSize sc)"
    by (rule impI) (rule mergeOptions_eq_Inr)
  have fail: "Provision p options = (Err e, [])"
    if "overrideEndpoints pvc sc = Inr sc1" "overrideNumbers pvc sc1 = Inl e" for e
    using that assms by (simp add: Provision_merge_fails mergeOptions_endpoints_ok)
  have p2: "overrideEndpoints pvc sc = Inr sc1 \<longrightarrow>
           (S3FSFUSERetryCount pvc \<noteq> [] \<and> Atoi (S3FSFUSERetryCount pvc) = None \<longrightarrow>
              Provision p options = (Err (CannotConvertToInteger ''s3fs-fuse-retry-count''), [])) \<and>
           ((S3FSFUSERetryCount pvc = [] \<or> Atoi (S3FSFUSERetryCount pvc) \<noteq> None) \<and>
            ChunkSizeMB pvc \<noteq> [] \<and> Atoi (ChunkSizeMB pvc) = None \<longrightarrow>
              Provision p options = (Err (CannotConvertToInteger ''chunk-size-mb''), [])) \<and>
           ((S3FSFUSERetryCount pvc = [] \<or> Atoi (S3FSFUSERetryCount pvc) \<noteq> None) \<and>
            (ChunkSizeMB pvc = [] \<or> Atoi (ChunkSizeMB pvc) \<noteq> None) \<and>
            ParallelCount pvc \<noteq> [] \<and> Atoi (ParallelCount pvc) = None \<longrightarrow>
              Provision p options = (Err (CannotConvertToInteger ''parallel-count''), [])) \<and>
           ((S3FSFUSERetryCount pvc = [] \<or> Atoi (S3FSFUSERetryCount pvc) \<noteq> None) \<and>
            (ChunkSizeMB pvc = [] \<or> Atoi (ChunkSizeMB pvc) \<noteq> None) \<and>
            (ParallelCount pvc = [] \<or> Atoi (ParallelCount pvc) \<noteq> None) \<and>
            MultiReqMax pvc \<noteq> [] \<and> Atoi (MultiReqMax pvc) = None \<longrightarrow>
              Provision p options = (Err (CannotConvertToInteger ''multireq-max''), [])) \<and>
           ((S3FSFUSERetryCount pvc = [] \<or> Atoi (S3FSFUSERetryCount pvc) \<noteq> None) \<and>
            (ChunkSizeMB pvc = [] \<or> Atoi (ChunkSizeMB pvc) \<noteq> None) \<and>
            (ParallelCount pvc = [] \<or> Atoi (ParallelCount pvc) \<noteq> None) \<and>
            (MultiReqMax pvc = [] \<or> Atoi (MultiReqMax pvc) \<noteq> None) \<and>
            StatCacheSize pvc \<noteq> [] \<and> Atoi (StatCacheSize pvc) = None \<longrightarrow>
              Provision p options = (Err (CannotConvertToInteger ''stat-cache-size''), []))"
    by (intro impI conjI; rule fail, assumption) (rule overrideNumbers_first_failure, assumption)+
  have p2': "(S3FSFUSERetryCount pvc \<noteq> [] \<and> Atoi (S3FSFUSERetryCount pvc) = None) \<or>
          (ChunkSizeMB pvc \<noteq> [] \<and> Atoi (ChunkSizeMB pvc) = None) \<or>
          (ParallelCount pvc \<noteq> [] \<and> Atoi (ParallelCount pvc) = None) \<or>
          (MultiReqMax pvc \<noteq> [] \<and> Atoi (MultiReqMax pvc) = None) \<or>
          (StatCacheSize pvc \<noteq> [] \<and> Atoi (StatCacheSize pvc) = None) \<longrightarrow>
            (\<exists>e. Provision p options = (Err e, []) \<and>
                 (isEndpointError e \<or> (\<exists>n. e = CannotConvertToInteger n)))"
    by (rule impI) (rule Provision_bad_number [OF assms])
  have p3: "error_class (CannotConvertToInteger name) = Some ConfigParseError" by simp
  have p4: "Provision p options = (Ok pv, t) \<longrightarrow>
           (\<exists>sc'' flex. mergeOptions pvc sc = Inr sc'' \<and> pv_FlexVolume pv = Some flex \<and>
              lookup (Options flex) ''object-store-endpoint'' = sc_OSEndpoint sc'' \<and>
              lookup (Options flex) ''object-store-storage-class'' = sc_OSStorageClass sc'' \<and>
              lookup (Options flex) ''iam-endpoint'' = sc_IAMEndpoint sc'' \<and>
              lookup (Options flex) ''s3fs-fuse-retry-count'' = Itoa (sc_S3FSFUSERetryCount sc'') \<and>
              lookup (Options flex) ''chunk-size-mb'' = Itoa (sc_ChunkSizeMB sc'') \<and>
              lookup (Options flex) ''parallel-count'' = Itoa (sc_ParallelCount sc'') \<and>
              lookup (Options flex) ''multireq-max'' = Itoa (sc_MultiReqMax sc'') \<and>
              lookup (Options flex) ''stat-cache-size'' = Itoa (sc_StatCacheSize sc''))"
  proof
    assume P: "Provision p options = (Ok pv, t)"
    from Provision_Ok_options [OF assms P] obtain sc'' pvc' flex where
      m: "mergeOptions pvc sc = Inr sc''" and f: "pv_FlexVolume pv = Some flex"
      and o: "Options flex = writeFields (driverFields (driverOptionsOf pvc' sc''))"
      by blast
    have "lookup (Options flex) ''object-store-endpoint'' = sc_OSEndpoint sc'' \<and>
              lookup (Options flex) ''object-store-storage-class'' = sc_OSStorageClass sc'' \<and>
              lookup (Options flex) ''iam-endpoint'' = sc_IAMEndpoint sc'' \<and>
              lookup (Options flex) ''s3fs-fuse-retry-count'' = Itoa (sc_S3FSFUSERetryCount sc'') \<and>
              lookup (Options flex) ''chunk-size-mb'' = Itoa (sc_ChunkSizeMB sc'') \<and>
              lookup (Options flex) ''parallel-count'' = Itoa (sc_ParallelCount sc'') \<and>
              lookup (Options flex) ''multireq-max'' = Itoa (sc_MultiReqMax sc'') \<and>
              lookup (Options flex) ''stat-cache-size'' = Itoa (sc_StatCacheSize sc'')"
      unfolding o by (simp only: driver_lookups) (simp add: driverOptionsOf_def)
    with m f show "\<exists>sc'' flex. mergeOptions pvc sc = Inr sc'' \<and> pv_FlexVolume pv = Some flex \<and>
              lookup (Options flex) ''object-store-endpoint'' = sc_OSEndpoint sc'' \<and>
              lookup (Options flex) ''object-store-storage-class'' = sc_OSStorageClass sc'' \<and>
              lookup (Options flex) ''iam-endpoint'' = sc_IAMEndpoint sc'' \<and>
              lookup (Options flex) ''s3fs-fuse-retry-count'' = Itoa (sc_S3FSFUSERetryCount sc'') \<and>
              lookup (Options flex) ''chunk-size-mb'' = Itoa (sc_ChunkSizeMB sc'') \<and>
              lookup (Options flex) ''parallel-count'' = Itoa (sc_ParallelCount sc'') \<and>
              lookup (Options flex) ''multireq-max'' = Itoa (sc_MultiReqMax sc'') \<and>
              lookup (Options flex) ''stat-cache-size'' = Itoa (sc_StatCacheSize sc'')"
      by blast
  qed
  show ?thesis
    by (intro conjI) (rule p1, rule p2, rule p2', rule p3, rule p4)
qed

text \<open>
  A claim that overrides the region and asks for chunks of 32 MB gets both; a chunk size
  that is not a number is refused with the error that names \<^verbatim>\<open>chunk-size-mb\<close>.
\<close>

theorem override_precedence_witness:
  "(\<exists>sc'. mergeOptions (emptyPvc\<lparr>Bucket := ''b1'', Region := ''vault'', SecretName := ''s1'',
              ChunkSizeMB := ''32''\<rparr>) exampleSc = Inr sc' \<and>
          sc_OSStorageClass sc' = ''vault'' \<and> sc_ChunkSizeMB sc' = 32 \<and>
          sc_OSEndpoint sc' = ''https://s3.example.com'') \<and>
   Provision exampleEnv (exampleOptions [(''ibm.io/bucket'', ''b1''),
      (''ibm.io/chunk-size-mb'', ''abc''), (''ibm.io/secret-name'', ''s1'')] exampleClass) =
   (Err (CannotConvertToInteger ''chunk-size-mb''), [])"
proof
  let ?o = "exampleOptions [(''ibm.io/bucket'', ''b1''), (''ibm.io/region'', ''vault''),
      (''ibm.io/chunk-size-mb'', ''32''), (''ibm.io/secret-name'', ''s1'')] exampleClass"
  let ?pvc = "emptyPvc\<lparr>Bucket := ''b1'', Region := ''vault'', SecretName := ''s1'',
              ChunkSizeMB := ''32''\<rparr>"
  let ?sc = "exampleSc\<lparr>sc_ChunkSizeMB := 32, sc_OSStorageClass := ''vault''\<rparr>"
  have u: "unmarshalInputs ?o = Inr (?pvc, exampleSc)"
    by (simp add: example_defs unmarshal_defs)
  have m: "mergeOptions ?pvc exampleSc = Inr ?sc"
    by (simp add: example_defs merge_defs)
  have a: "Atoi ''32'' = Some 32" by (simp add: Atoi_def isDigit_def)
  from override_precedence [OF u, of ?sc] m a
  show "\<exists>sc'. mergeOptions ?pvc exampleSc = Inr sc' \<and>
          sc_OSStorageClass sc' = ''vault'' \<and> sc_ChunkSizeMB sc' = 32 \<and>
          sc_OSEndpoint sc' = ''https://s3.example.com''"
    by (simp add: emptyPvc_def exampleSc_def)
next
  let ?o = "exampleOptions [(''ibm.io/bucket'', ''b1''),
      (''ibm.io/chunk-size-mb'', ''abc''), (''ibm.io/secret-name'', ''s1'')] exampleClass"
  let ?pvc = "emptyPvc\<lparr>Bucket := ''b1'', SecretName := ''s1'', ChunkSizeMB := ''abc''\<rparr>"
  have u: "unmarshalInputs ?o = Inr (?pvc, exampleSc)"
    by (simp add: example_defs unmarshal_defs)
  have oe: "overrideEndpoints ?pvc exampleSc = Inr exampleSc"
    by (simp add: example_defs merge_defs)
  have a: "Atoi ''abc'' = None" by (simp add: Atoi_def isDigit_def)
  from override_precedence [OF u, of _ exampleSc exampleEnv] oe a
  show "Provision exampleEnv ?o = (Err (CannotConvertToInteger ''chunk-size-mb''), [])"
    by (simp add: emptyPvc_def)
qed

text \<open>
  A chunk size that is not a number, first together with an endpoint without scheme, then
  together with a retry count that is not a number either: the error returned is the
  endpoint's validation error in the first case, and names the retry count, not the chunk
  size, in the second.
\<close>

theorem non_numeric_chunk_size_counterexample:
  "ChunkSizeMB (emptyPvc\<lparr>Bucket := ''b1'', Endpoint := ''s3.example.com'', SecretName := ''s1'',
      ChunkSizeMB := ''abc''\<rparr>) = ''abc'' \<and> Atoi ''abc'' = None \<and>
   unmarshalInputs (exampleOptions [(''ibm.io/bucket'', ''b1''),
      (''ibm.io/endpoint'', ''s3.example.com''), (''ibm.io/chunk-size-mb'', ''abc''),
      (''ibm.io/secret-name'', ''s1'')] exampleClass) =
     Inr (emptyPvc\<lparr>Bucket := ''b1'', Endpoint := ''s3.example.com'', SecretName := ''s1'',
            ChunkSizeMB := ''abc''\<rparr>, exampleSc) \<and>
   Provision exampleEnv (exampleOptions [(''ibm.io/bucket'', ''b1''),
      (''ibm.io/endpoint'', ''s3.example.com''), (''ibm.io/chunk-size-mb'', ''abc''),
      (''ibm.io/secret-name'', ''s1'')] exampleClass) =
     (Err (BadObjectStoreEndpoint ''s3.example.com''), []) \<and>
   error_class (BadObjectStoreEndpoint ''s3.example.com'') = Some ValidationError \<and>
   unmarshalInputs (exampleOptions [(''ibm.io/bucket'', ''b1''),
      (''ibm.io/s3fs-fuse-retry-count'', ''x''), (''ibm.io/chunk-size-mb'', ''abc''),
      (''ibm.io/secret-name'', ''s1'')] exampleClass) =
     Inr (emptyPvc\<lparr>Bucket := ''b1'', SecretName := ''s1'', ChunkSizeMB := ''abc'',
            S3FSFUSERetryCount := ''x''\<rparr>, exampleSc) \<and>
   Provision exampleEnv (exampleOptions [(''ibm.io/bucket'', ''b1''),
      (''ibm.io/s3fs-fuse-retry-count'', ''x''), (''ibm.io/chunk-size-mb'', ''abc''),
      (''ibm.io/secret-name'', ''s1'')] exampleClass) =
     (Err (CannotConvertToInteger ''s3fs-fuse-retry-count''), [])"
proof -
  let ?o1 = "exampleOptions [(''ibm.io/bucket'', ''b1''),
      (''ibm.io/endpoint'', ''s3.example.com''), (''ibm.io/chunk-size-mb'', ''abc''),
      (''ibm.io/secret-name'', ''s1'')] exampleClass"
  let ?pvc1 = "emptyPvc\<lparr>Bucket := ''b1'', Endpoint := ''s3.example.com'', SecretName := ''s1'',
      ChunkSizeMB := ''abc''\<rparr>"
  let ?o2 = "exampleOptions [(''ibm.io/bucket'', ''b1''),
      (''ibm.io/s3fs-fuse-retry-count'', ''x''), (''ibm.io/chunk-size-mb'', ''abc''),
      (''ibm.io/secret-name'', ''s1'')] exampleClass"
  let ?pvc2 = "emptyPvc\<lparr>Bucket := ''b1'', SecretName := ''s1'', ChunkSizeMB := ''abc'',
            S3FSFUSERetryCount := ''x''\<rparr>"
  have a: "Atoi ''abc'' = None" by (simp add: Atoi_def isDigit_def)
  have u1: "unmarshalInputs ?o1 = Inr (?pvc1, exampleSc)"
    by (simp add: example_defs unmarshal_defs)
  have m1: "mergeOptions ?pvc1 exampleSc = Inl (BadObjectStoreEndpoint ''s3.example.com'')"
    by (simp add: example_defs merge_defs)
  have u2: "unmarshalInputs ?o2 = Inr (?pvc2, exampleSc)"
    by (simp add: example_defs unmarshal_defs)
  have m2: "mergeOptions ?pvc2 exampleSc = Inl (CannotConvertToInteger ''s3fs-fuse-retry-count'')"
    by (simp add: example_defs merge_defs)
  from a u1 u2 Provision_merge_fails [OF u1 m1, of exampleEnv]
    Provision_merge_fails [OF u2 m2, of exampleEnv]
  show ?thesis by simp
qed

end
